theory Spec2Isabelle
  imports Complex_Main
begin

section \<open>Python values used by the trainer\<close>

text \<open>
  The development embeds \<^verbatim>\<open>thre3d_atom/modules/trainers.py\<close>, that is the procedure
  \<^verbatim>\<open>train_sh_vox_grid_vol_mod_with_posed_images\<close>. Every \<^verbatim>\<open>raise\<close> the procedure can
  reach by itself (a failed \<^verbatim>\<open>assert\<close>, an index out of range, a modulo or a division by
  zero, a data loader refused for its batch size, a method called on \<^verbatim>\<open>None\<close>) is a value
  of \<open>error\<close>, and so is the RuntimeError of a gradient step that the optimizer library
  refuses.
\<close>

datatype error =
  AssertionError string | IndexError | ZeroDivisionError | ValueError | AttributeError
  | RuntimeError

text \<open>
  A statement either completes in a new state or raises in the state it has reached, so
  that everything done before the exception stays visible.
\<close>

datatype 's outcome = Done 's | Raised error 's

fun state_of :: "'s outcome \<Rightarrow> 's" where
  "state_of (Done s) = s"
| "state_of (Raised e s) = s"

fun and_then :: "'s outcome \<Rightarrow> ('s \<Rightarrow> 's outcome) \<Rightarrow> 's outcome" where
  "and_then (Done s) f = f s"
| "and_then (Raised e s) f = Raised e s"

text \<open>A block of statements, run in order; the first exception ends it.\<close>

primrec chain :: "('s \<Rightarrow> 's outcome) list \<Rightarrow> 's \<Rightarrow> 's outcome" where
  "chain [] s = Done s"
| "chain (f # fs) s = and_then (f s) (chain fs)"

text \<open>\<^verbatim>\<open>for x in range(a, b): body\<close>, over Python's unbounded integers.\<close>

definition py_range :: "int \<Rightarrow> int \<Rightarrow> int list" where
  "py_range a b = [a..b - 1]"

definition for_loop :: "int list \<Rightarrow> (int \<Rightarrow> 's \<Rightarrow> 's outcome) \<Rightarrow> 's \<Rightarrow> 's outcome" where
  "for_loop xs body = chain (map body xs)"

text \<open>
  \<^verbatim>\<open>a % b\<close> on integers: the remainder has the sign of the divisor, as \<open>mod\<close> on \<open>int\<close>
  has; \<open>None\<close> is ZeroDivisionError.
\<close>

definition py_mod :: "int \<Rightarrow> int \<Rightarrow> int option" where
  "py_mod a b = (if b = 0 then None else Some (a mod b))"

text \<open>\<^verbatim>\<open>xs[i]\<close>: a negative index counts from the end; \<open>None\<close> is IndexError.\<close>

definition py_index :: "'a list \<Rightarrow> int \<Rightarrow> 'a option" where
  "py_index xs i =
     (let n = int (length xs); j = (if i < 0 then n + i else i)
      in if 0 \<le> j \<and> j < n then Some (xs ! nat j) else None)"

text \<open>
  What \<^verbatim>\<open>assert x\<close> tests is the truth value of the object \<^verbatim>\<open>x\<close>. A list is true
  when it is not empty. A generator object defines neither \<^verbatim>\<open>__bool__\<close> nor
  \<^verbatim>\<open>__len__\<close>, so it is true whatever it is going to yield.
\<close>

datatype 'p py_iterable = PyList "'p list" | PyGenerator "'p list"

fun truthy :: "'p py_iterable \<Rightarrow> bool" where
  "truthy (PyList ps) = (ps \<noteq> [])"
| "truthy (PyGenerator ps) = True"

fun contents :: "'p py_iterable \<Rightarrow> 'p list" where
  "contents (PyList ps) = ps"
| "contents (PyGenerator ps) = ps"

text \<open>\<^verbatim>\<open>str(n)\<close> for the integers that appear in file names.\<close>

definition digit_char :: "nat \<Rightarrow> char" where
  "digit_char d = ''0123456789'' ! d"

function str_nat :: "nat \<Rightarrow> string" where
  "str_nat n = (if n < 10 then [digit_char n] else str_nat (n div 10) @ [digit_char (n mod 10)])"
  by pat_completeness auto
termination
  by (relation "measure id") auto

declare str_nat.simps [simp del]

definition str_int :: "int \<Rightarrow> string" where
  "str_int i = (if i < 0 then CHR ''-'' # str_nat (nat (- i)) else str_nat (nat i))"

section \<open>Data model\<close>

type_synonym dims = "int \<times> int \<times> int"
type_synonym path = "string list"
type_synonym addr = nat

text \<open>
  The representation object, as the trainer uses it: its class (tested by
  \<^verbatim>\<open>isinstance(..., VoxelGrid)\<close>), \<^verbatim>\<open>grid_dims\<close> and the two tensors
  \<^verbatim>\<open>densities\<close> and \<^verbatim>\<open>features\<close>. Every tensor (grid values, images, poses, rays,
  pixels, losses) is a value of the one type \<open>'t\<close>.
\<close>

record 't thre3d_repr_obj =
  is_VoxelGrid :: bool
  grid_dims :: dims
  densities :: 't
  features :: 't

datatype render_procedure_fn = render_sh_voxel_grid | other_render_procedure

record 't VolumetricModel =
  thre3d_repr :: "'t thre3d_repr_obj"
  render_procedure :: render_procedure_fn
  parallel_rays_chunk_size :: int
  render_num_samples_per_ray :: int

text \<open>
  A dataset is its list of (image, pose) samples, its caching flag and the height and
  width of its camera intrinsics.
\<close>

record 't PosedImagesDataset =
  samples :: "('t \<times> 't) list"
  cached_data_mode :: bool
  intrinsics_height :: int
  intrinsics_width :: int

text \<open>The keyword arguments of the procedure.\<close>

record 't train_args =
  output_dir :: path
  test_dataset :: "'t PosedImagesDataset option"
  image_batch_cache_size :: int
  ray_batch_size :: int
  num_stages :: int
  num_iterations_per_stage :: int
  scale_factor :: real
  learning_rate :: real
  lr_decay_gamma_per_stage :: real
  lr_decay_steps_per_stage :: int
  stagewise_lr_decay_gamma :: real
  render_feedback_pose :: "'t option"
  save_freq :: int
  test_freq :: int
  feedback_freq :: int
  summary_freq :: int
  apply_diffuse_render_regularization :: bool
  num_workers :: int
  verbose_rendering :: bool
  fast_debug_mode :: bool

text \<open>
  The functions the trainer imports and calls, taken as parameters: their bodies are not
  part of \<^verbatim>\<open>trainers.py\<close>. Random draws (the initializer, the shuffled batches, the
  sampled rays) are functions of a draw counter. \<open>parameters\<close> is the method
  \<^verbatim>\<open>thre3d_repr.parameters()\<close>; \<open>optimizer_step\<close> is \<^verbatim>\<open>zero_grad\<close>,
  \<^verbatim>\<open>backward\<close> and \<^verbatim>\<open>step\<close> together. It gives the new values of the two tensors, or
  \<open>None\<close> when it raises: \<^verbatim>\<open>backward\<close> raises RuntimeError on a loss that depends on no
  tensor that requires a gradient, as the loss of a grid without trainable tensors does.
\<close>

record 't collaborators =
  compute_thre3d_grid_sizes :: "dims \<Rightarrow> int \<Rightarrow> real \<Rightarrow> dims list"
  scale_voxel_grid_with_required_output_size ::
    "'t thre3d_repr_obj \<Rightarrow> dims \<Rightarrow> string \<Rightarrow> 't thre3d_repr_obj"
  random_initializer :: "nat \<Rightarrow> 't \<Rightarrow> 't"
  parameters :: "'t thre3d_repr_obj \<Rightarrow> 't py_iterable"
  sample_random_rays_and_pixels :: "nat \<Rightarrow> 't PosedImagesDataset \<Rightarrow> int \<Rightarrow> int \<Rightarrow> 't \<times> 't"
  render_rays :: "'t thre3d_repr_obj \<Rightarrow> 't \<Rightarrow> bool \<Rightarrow> 't"
  l1_loss :: "'t \<Rightarrow> 't \<Rightarrow> 't"
  mse_loss :: "'t \<Rightarrow> 't \<Rightarrow> 't"
  mse2psnr :: "'t \<Rightarrow> 't"
  tensor_add :: "'t \<Rightarrow> 't \<Rightarrow> 't"
  optimizer_step :: "real \<Rightarrow> 't \<Rightarrow> 't thre3d_repr_obj \<Rightarrow> ('t \<times> 't) option"

text \<open>
  What the procedure does to the outside world, in the order it does it. A scalar sent
  to tensorboard is a tensor or a Python float; the quotient that \<^verbatim>\<open>/\<close> gives on two
  integers is taken exactly here.
\<close>

datatype 't scalar = TensorValue 't | FloatValue real

datatype 't log_message =
    LoggingRealFeedbackImage
  | CreatingCameraRaysVisualization
  | BeginningTraining
  | TrainingStage int dims
  | CurrentStageLearningRates "real list"
  | LossInfo int int int 't 't "('t \<times> 't \<times> 't) option"
  | AdjustedLearningRate "real list"
  | SavingModelSnapshot int int
  | SavingFinalModelSnapshot
  | TrainingComplete

datatype 't event =
    ScaleVoxelGrid dims string
  | RandomInit string
  | Mkdir path
  | ImWrite path
  | VisualizeCameraRays
  | LogInfo "'t log_message"
  | AdamCreated "'t list" real
  | RenderRays bool
  | OptimizerStep int int 't
  | AddScalar string "'t scalar" int
  | LrSchedulerStep
  | RenderedFeedback 't int bool
  | TestEvaluation int int
  | TorchSave path

text \<open>
  The state: the store of VolumetricModel objects by address (the caller and the trainer
  hold the same address), the draw counter, the learning rate of the current optimizer
  and the effects so far.
\<close>

record 't state =
  heap :: "addr \<Rightarrow> 't VolumetricModel"
  rng :: nat
  optimizer_lr :: real
  trace :: "'t event list"

datatype 't call_result = Returns addr "'t state" | Raises error "'t state"

fun final_state :: "'t call_result \<Rightarrow> 't state" where
  "final_state (Returns a s) = s"
| "final_state (Raises e s) = s"

definition emit :: "'t event list \<Rightarrow> 't state \<Rightarrow> 't state" where
  "emit es st = st\<lparr>trace := trace st @ es\<rparr>"

definition get_repr :: "'t state \<Rightarrow> addr \<Rightarrow> 't thre3d_repr_obj" where
  "get_repr st vol_mod = thre3d_repr (heap st vol_mod)"

definition set_repr :: "addr \<Rightarrow> 't thre3d_repr_obj \<Rightarrow> 't state \<Rightarrow> 't state" where
  "set_repr vol_mod r st = st\<lparr>heap := (heap st)(vol_mod := (heap st vol_mod)\<lparr>thre3d_repr := r\<rparr>)\<rparr>"

section \<open>The training procedure\<close>

subsection \<open>Before the loop\<close>

text \<open>Lines 124-135: the grid is scaled to the first size, then both tensors are redrawn.\<close>

definition initial_downscale ::
  "'t collaborators \<Rightarrow> dims list \<Rightarrow> addr \<Rightarrow> 't state \<Rightarrow> 't state outcome" where
  "initial_downscale env stagewise_voxel_grid_sizes vol_mod st =
     (case py_index stagewise_voxel_grid_sizes 0 of
        None \<Rightarrow> Raised IndexError st
      | Some size0 \<Rightarrow>
          let st1 = emit [ScaleVoxelGrid size0 ''trilinear'']
                      (set_repr vol_mod
                         (scale_voxel_grid_with_required_output_size env
                            (get_repr st vol_mod) size0 ''trilinear'') st);
              r1 = get_repr st1 vol_mod;
              st2 = emit [RandomInit ''densities'']
                      ((set_repr vol_mod
                          (r1\<lparr>densities := random_initializer env (rng st1) (densities r1)\<rparr>) st1)
                       \<lparr>rng := rng st1 + 1\<rparr>);
              r2 = get_repr st2 vol_mod;
              st3 = emit [RandomInit ''features'']
                      ((set_repr vol_mod
                          (r2\<lparr>features := random_initializer env (rng st2) (features r2)\<rparr>) st2)
                       \<lparr>rng := rng st2 + 1\<rparr>)
          in Done st3)"

text \<open>
  Lines 137-145: the feedback pose is the one supplied, or the pose of the first sample
  of the test dataset (of the training dataset when there is none), together with that
  sample's image. \<open>None\<close> is the IndexError of \<^verbatim>\<open>feedback_dataset[0]\<close> on an empty
  dataset.
\<close>

definition setup_render_feedback_pose ::
  "'t train_args \<Rightarrow> 't PosedImagesDataset \<Rightarrow> ('t \<times> 't option) option" where
  "setup_render_feedback_pose args train_dataset =
     (case render_feedback_pose args of
        Some pose \<Rightarrow> Some (pose, None)
      | None \<Rightarrow>
          let feedback_dataset =
                (case test_dataset args of Some td \<Rightarrow> td | None \<Rightarrow> train_dataset)
          in (case samples feedback_dataset of
                [] \<Rightarrow> None
              | (img, pose) # _ \<Rightarrow> Some (pose, Some img)))"

text \<open>
  \<^verbatim>\<open>len(DataLoader(dataset, batch_size, drop_last))\<close> is the number of batches: with
  \<^verbatim>\<open>drop_last\<close> the incomplete last batch does not count. A batch size that is not
  positive is refused with ValueError (\<open>None\<close>).
\<close>

definition DataLoader_len :: "nat \<Rightarrow> int \<Rightarrow> bool \<Rightarrow> int option" where
  "DataLoader_len n batch_size drop_last =
     (if batch_size \<le> 0 then None
      else Some (if drop_last then int n div batch_size
                 else (int n + batch_size - 1) div batch_size))"

text \<open>Lines 182-187.\<close>

definition dataset_size :: "int \<Rightarrow> 't PosedImagesDataset \<Rightarrow> int" where
  "dataset_size len_train_dl train_dataset =
     len_train_dl * intrinsics_height train_dataset * intrinsics_width train_dataset"

definition model_dir :: "'t train_args \<Rightarrow> path" where
  "model_dir args = output_dir args @ [''saved_models'']"

definition logs_dir :: "'t train_args \<Rightarrow> path" where
  "logs_dir args = output_dir args @ [''training_logs'']"

definition tensorboard_dir :: "'t train_args \<Rightarrow> path" where
  "tensorboard_dir args = logs_dir args @ [''tensorboard'']"

definition render_dir :: "'t train_args \<Rightarrow> path" where
  "render_dir args = logs_dir args @ [''rendered_output'']"

text \<open>Lines 189-230: directories, the real feedback image, the camera-rays visualization.\<close>

definition output_setup_effects :: "'t train_args \<Rightarrow> 't option \<Rightarrow> 't event list" where
  "output_setup_effects args real_feedback_image =
     [Mkdir (model_dir args), Mkdir (logs_dir args), Mkdir (tensorboard_dir args),
      Mkdir (render_dir args)]
     @ (case real_feedback_image of
          None \<Rightarrow> []
        | Some img \<Rightarrow>
            [LogInfo LoggingRealFeedbackImage, ImWrite (render_dir args @ [''1__real_log.png''])])
     @ (if \<not> fast_debug_mode args
        then [LogInfo CreatingCameraRaysVisualization, VisualizeCameraRays]
        else [])
     @ [LogInfo BeginningTraining]"

definition setup_outputs :: "'t train_args \<Rightarrow> 't option \<Rightarrow> 't state \<Rightarrow> 't state" where
  "setup_outputs args real_feedback_image st =
     emit (output_setup_effects args real_feedback_image) st"

subsection \<open>One stage\<close>

text \<open>Lines 237-262: the optimizer of the stage.\<close>

definition begin_stage ::
  "'t train_args \<Rightarrow> 't collaborators \<Rightarrow> addr \<Rightarrow> int \<Rightarrow> 't state \<Rightarrow> 't state outcome" where
  "begin_stage args env vol_mod stage st =
     (let current_stage_lr =
            learning_rate args * stagewise_lr_decay_gamma args ^ nat (stage - 1);
          optimizeable_parameters = parameters env (get_repr st vol_mod)
      in if \<not> truthy optimizeable_parameters
         then Raised (AssertionError ''No optimizeable parameters :(. Nothing will happen'') st
         else Done (emit [AdamCreated (contents optimizeable_parameters) current_stage_lr,
                          LogInfo (TrainingStage stage (grid_dims (get_repr st vol_mod))),
                          LogInfo (CurrentStageLearningRates [current_stage_lr])]
                      (st\<lparr>optimizer_lr := current_stage_lr\<rparr>)))"

text \<open>The values an iteration computes before its side effects (lines 301-331).\<close>

record 't losses =
  specular_loss_value :: 't
  specular_psnr_value :: 't
  diffuse_loss_value :: "'t option"
  diffuse_psnr_value :: "'t option"
  total_loss :: 't

definition compute_losses ::
  "'t train_args \<Rightarrow> 't collaborators \<Rightarrow> 't thre3d_repr_obj \<Rightarrow> 't \<Rightarrow> 't \<Rightarrow> 't losses" where
  "compute_losses args env repr rays_batch pixels_batch =
     (let specular_rendered_pixels_batch = render_rays env repr rays_batch False;
          specular_loss = l1_loss env specular_rendered_pixels_batch pixels_batch;
          specular_psnr = mse2psnr env (mse_loss env specular_rendered_pixels_batch pixels_batch)
      in if apply_diffuse_render_regularization args
         then
           let diffuse_rendered_pixels_batch = render_rays env repr rays_batch True;
               diffuse_loss = l1_loss env diffuse_rendered_pixels_batch pixels_batch
           in \<lparr>specular_loss_value = specular_loss, specular_psnr_value = specular_psnr,
               diffuse_loss_value = Some diffuse_loss,
               diffuse_psnr_value =
                 Some (mse2psnr env (mse_loss env diffuse_rendered_pixels_batch pixels_batch)),
               total_loss = tensor_add env specular_loss diffuse_loss\<rparr>
         else \<lparr>specular_loss_value = specular_loss, specular_psnr_value = specular_psnr,
               diffuse_loss_value = None, diffuse_psnr_value = None,
               total_loss = specular_loss\<rparr>)"

text \<open>
  Lines 270-336: a batch is sampled, rendered (twice under the regularization) and the
  optimizer takes one step on the total loss, which changes the two tensors in place; when
  the step raises, the batch has been rendered and the tensors are as they were.
\<close>

definition sample_batch ::
  "'t train_args \<Rightarrow> 't collaborators \<Rightarrow> 't PosedImagesDataset \<Rightarrow> 't state \<Rightarrow> 't \<times> 't" where
  "sample_batch args env train_dataset st =
     sample_random_rays_and_pixels env (rng st) train_dataset
       (image_batch_cache_size args) (ray_batch_size args)"

definition iteration_losses ::
  "'t train_args \<Rightarrow> 't collaborators \<Rightarrow> 't PosedImagesDataset \<Rightarrow> addr \<Rightarrow> 't state \<Rightarrow> 't losses" where
  "iteration_losses args env train_dataset vol_mod st =
     compute_losses args env (get_repr st vol_mod)
       (fst (sample_batch args env train_dataset st))
       (snd (sample_batch args env train_dataset st))"

definition optimize ::
  "'t train_args \<Rightarrow> 't collaborators \<Rightarrow> 't PosedImagesDataset \<Rightarrow> addr \<Rightarrow> int \<Rightarrow> int \<Rightarrow>
     't state \<Rightarrow> 't state outcome" where
  "optimize args env train_dataset vol_mod stage stage_iteration st =
     (let L = iteration_losses args env train_dataset vol_mod st;
          repr = get_repr st vol_mod;
          rendered = emit ([RenderRays False]
                           @ (if apply_diffuse_render_regularization args
                              then [RenderRays True] else []))
                       (st\<lparr>rng := rng st + 1\<rparr>)
      in case optimizer_step env (optimizer_lr st) (total_loss L) repr of
           None \<Rightarrow> Raised RuntimeError rendered
         | Some new_values \<Rightarrow>
             Done (emit [OptimizerStep stage stage_iteration (total_loss L)]
                     (set_repr vol_mod
                        (repr\<lparr>densities := fst new_values, features := snd new_values\<rparr>)
                        rendered)))"

text \<open>Line 341.\<close>

definition global_step :: "'t train_args \<Rightarrow> int \<Rightarrow> int \<Rightarrow> int" where
  "global_step args stage stage_iteration =
     ((stage - 1) * num_iterations_per_stage args) + stage_iteration"

text \<open>
  Lines 343-360. The tuple of summaries is built before the first scalar is written, so
  a zero \<^verbatim>\<open>dataset_size\<close> raises before anything is sent.
\<close>

definition tensorboard_summaries ::
  "'t train_args \<Rightarrow> int \<Rightarrow> 't losses \<Rightarrow> int \<Rightarrow> int \<Rightarrow> 't state \<Rightarrow> 't state outcome" where
  "tensorboard_summaries args dsize L stage stage_iteration st =
     (let g = global_step args stage stage_iteration in
      case py_mod g (summary_freq args) of
        None \<Rightarrow> Raised ZeroDivisionError st
      | Some r \<Rightarrow>
          if r = 0 \<or> stage_iteration = 1 \<or> stage_iteration = num_iterations_per_stage args
          then
            if dsize = 0 then Raised ZeroDivisionError st
            else Done (emit
              ([AddScalar ''specular_loss'' (TensorValue (specular_loss_value L)) g]
               @ (case diffuse_loss_value L of
                    None \<Rightarrow> [] | Some v \<Rightarrow> [AddScalar ''diffuse_loss'' (TensorValue v) g])
               @ [AddScalar ''specular_psnr'' (TensorValue (specular_psnr_value L)) g]
               @ (case diffuse_psnr_value L of
                    None \<Rightarrow> [] | Some v \<Rightarrow> [AddScalar ''diffuse_psnr'' (TensorValue v) g])
               @ [AddScalar ''total_loss'' (TensorValue (total_loss L)) g,
                  AddScalar ''num_epochs''
                    (FloatValue (real_of_int (ray_batch_size args * g) / real_of_int dsize)) g])
              st)
          else Done st)"

text \<open>
  Lines 362-381. Under the regularization the line also formats the diffuse values, with
  \<^verbatim>\<open>.item()\<close>, which \<^verbatim>\<open>None\<close> does not have.
\<close>

definition console_loss_feedback ::
  "'t train_args \<Rightarrow> 't losses \<Rightarrow> int \<Rightarrow> int \<Rightarrow> 't state \<Rightarrow> 't state outcome" where
  "console_loss_feedback args L stage stage_iteration st =
     (let g = global_step args stage stage_iteration in
      case py_mod g (summary_freq args) of
        None \<Rightarrow> Raised ZeroDivisionError st
      | Some r \<Rightarrow>
          if r = 0 \<or> stage_iteration = 1 \<or> stage_iteration = num_iterations_per_stage args
          then
            if apply_diffuse_render_regularization args
            then
              (case (diffuse_loss_value L, diffuse_psnr_value L) of
                 (Some dl, Some dp) \<Rightarrow>
                   Done (emit [LogInfo (LossInfo stage g stage_iteration
                                 (specular_loss_value L) (specular_psnr_value L)
                                 (Some (dl, dp, total_loss L)))] st)
               | _ \<Rightarrow> Raised AttributeError st)
            else Done (emit [LogInfo (LossInfo stage g stage_iteration
                               (specular_loss_value L) (specular_psnr_value L) None)] st)
          else Done st)"

text \<open>Lines 383-388: the scheduler multiplies the learning rate by its gamma.\<close>

definition step_lr_scheduler ::
  "'t train_args \<Rightarrow> int \<Rightarrow> 't state \<Rightarrow> 't state outcome" where
  "step_lr_scheduler args stage_iteration st =
     (case py_mod stage_iteration (lr_decay_steps_per_stage args) of
        None \<Rightarrow> Raised ZeroDivisionError st
      | Some r \<Rightarrow>
          if r = 0
          then
            let new_lr = optimizer_lr st * lr_decay_gamma_per_stage args
            in Done (emit [LrSchedulerStep, LogInfo (AdjustedLearningRate [new_lr])]
                       (st\<lparr>optimizer_lr := new_lr\<rparr>))
          else Done st)"

text \<open>Lines 390-409.\<close>

definition rendered_feedback ::
  "'t train_args \<Rightarrow> 't \<Rightarrow> int \<Rightarrow> int \<Rightarrow> 't state \<Rightarrow> 't state outcome" where
  "rendered_feedback args feedback_pose stage stage_iteration st =
     (let g = global_step args stage stage_iteration in
      case py_mod g (feedback_freq args) of
        None \<Rightarrow> Raised ZeroDivisionError st
      | Some r \<Rightarrow>
          if r = 0 \<or> stage_iteration = 1 \<or> stage_iteration = num_iterations_per_stage args
          then Done (emit [RenderedFeedback feedback_pose g True] st)
          else Done st)"

text \<open>
  Lines 411-426. \<^verbatim>\<open>and\<close> evaluates from the left: without a test loader, or in fast
  debug mode, \<^verbatim>\<open>test_freq\<close> is not looked at.
\<close>

definition test_metrics ::
  "'t train_args \<Rightarrow> int \<Rightarrow> int \<Rightarrow> 't state \<Rightarrow> 't state outcome" where
  "test_metrics args stage stage_iteration st =
     (let g = global_step args stage stage_iteration in
      if test_dataset args \<noteq> None \<and> \<not> fast_debug_mode args
      then
        (case py_mod g (test_freq args) of
           None \<Rightarrow> Raised ZeroDivisionError st
         | Some r \<Rightarrow>
             if r = 0 \<or> stage_iteration = num_iterations_per_stage args
             then Done (emit [TestEvaluation (ray_batch_size args) g] st)
             else Done st)
      else Done st)"

text \<open>Lines 428-446.\<close>

definition snapshot_path :: "'t train_args \<Rightarrow> int \<Rightarrow> int \<Rightarrow> path" where
  "snapshot_path args stage g =
     model_dir args @ [''model_stage_'' @ str_int stage @ ''_iter_'' @ str_int g @ ''.pth'']"

definition save_model ::
  "'t train_args \<Rightarrow> int \<Rightarrow> int \<Rightarrow> 't state \<Rightarrow> 't state outcome" where
  "save_model args stage stage_iteration st =
     (let g = global_step args stage stage_iteration in
      case py_mod g (save_freq args) of
        None \<Rightarrow> Raised ZeroDivisionError st
      | Some r \<Rightarrow>
          if r = 0 \<or> stage_iteration = 1 \<or> stage_iteration = num_iterations_per_stage args
          then Done (emit [LogInfo (SavingModelSnapshot stage g),
                           TorchSave (snapshot_path args stage g)] st)
          else Done st)"

text \<open>The body of the inner loop, lines 266-446.\<close>

definition train_iteration ::
  "'t train_args \<Rightarrow> 't collaborators \<Rightarrow> 't PosedImagesDataset \<Rightarrow> 't \<Rightarrow> int \<Rightarrow> addr \<Rightarrow> int \<Rightarrow>
     int \<Rightarrow> 't state \<Rightarrow> 't state outcome" where
  "train_iteration args env train_dataset feedback_pose dsize vol_mod stage stage_iteration st =
     (let L = iteration_losses args env train_dataset vol_mod st
      in chain
           [optimize args env train_dataset vol_mod stage stage_iteration,
            tensorboard_summaries args dsize L stage stage_iteration,
            console_loss_feedback args L stage stage_iteration,
            step_lr_scheduler args stage_iteration,
            rendered_feedback args feedback_pose stage stage_iteration,
            test_metrics args stage stage_iteration,
            save_model args stage stage_iteration]
           st)"

text \<open>Lines 449-458: between two stages the grid is scaled to the size of the next one.\<close>

definition upsample_after_stage ::
  "'t train_args \<Rightarrow> 't collaborators \<Rightarrow> dims list \<Rightarrow> addr \<Rightarrow> int \<Rightarrow> 't state \<Rightarrow> 't state outcome" where
  "upsample_after_stage args env stagewise_voxel_grid_sizes vol_mod stage st =
     (if stage \<noteq> num_stages args
      then
        (case py_index stagewise_voxel_grid_sizes stage of
           None \<Rightarrow> Raised IndexError st
         | Some next_size \<Rightarrow>
             Done (emit [ScaleVoxelGrid next_size ''trilinear'']
                     (set_repr vol_mod
                        (scale_voxel_grid_with_required_output_size env
                           (get_repr st vol_mod) next_size ''trilinear'') st)))
      else Done st)"

text \<open>The body of the outer loop, lines 236-458.\<close>

definition train_stage ::
  "'t train_args \<Rightarrow> 't collaborators \<Rightarrow> 't PosedImagesDataset \<Rightarrow> 't \<Rightarrow> int \<Rightarrow> dims list \<Rightarrow> addr \<Rightarrow>
     int \<Rightarrow> 't state \<Rightarrow> 't state outcome" where
  "train_stage args env train_dataset feedback_pose dsize sizes vol_mod stage =
     chain
       [begin_stage args env vol_mod stage,
        for_loop (py_range 1 (num_iterations_per_stage args + 1))
          (train_iteration args env train_dataset feedback_pose dsize vol_mod stage),
        upsample_after_stage args env sizes vol_mod stage]"

subsection \<open>The whole procedure\<close>

text \<open>Lines 461-475.\<close>

definition final_model_effects :: "'t train_args \<Rightarrow> 't event list" where
  "final_model_effects args =
     [LogInfo SavingFinalModelSnapshot,
      TorchSave (model_dir args @ [''model_final.pth'']),
      LogInfo TrainingComplete]"

definition save_final_model :: "'t train_args \<Rightarrow> 't state \<Rightarrow> 't state outcome" where
  "save_final_model args st = Done (emit (final_model_effects args) st)"

definition main_training_loop ::
  "'t train_args \<Rightarrow> 't collaborators \<Rightarrow> 't PosedImagesDataset \<Rightarrow> 't \<Rightarrow> int \<Rightarrow> dims list \<Rightarrow> addr \<Rightarrow>
     't state \<Rightarrow> 't state outcome" where
  "main_training_loop args env train_dataset feedback_pose dsize sizes vol_mod =
     for_loop (py_range 1 (num_stages args + 1))
       (train_stage args env train_dataset feedback_pose dsize sizes vol_mod)"

definition to_call_result :: "addr \<Rightarrow> 't state outcome \<Rightarrow> 't call_result" where
  "to_call_result ret out = (case out of Done s \<Rightarrow> Returns ret s | Raised e s \<Rightarrow> Raises e s)"

definition train_sh_vox_grid_vol_mod_with_posed_images ::
  "'t train_args \<Rightarrow> 't collaborators \<Rightarrow> addr \<Rightarrow> 't PosedImagesDataset \<Rightarrow> 't state \<Rightarrow>
     't call_result" where
  "train_sh_vox_grid_vol_mod_with_posed_images args env vol_mod train_dataset st =
     (if \<not> is_VoxelGrid (get_repr st vol_mod)
      then Raises (AssertionError ''sorry, cannot use this representation with this TrainProcedure'') st
      else if render_procedure (heap st vol_mod) \<noteq> render_sh_voxel_grid
      then Raises (AssertionError ''sorry, non SH-based VoxelGrids cannot be used with this TrainProcedure'') st
      else
        let stagewise_voxel_grid_sizes =
              compute_thre3d_grid_sizes env (grid_dims (get_repr st vol_mod))
                (num_stages args) (scale_factor args)
        in case initial_downscale env stagewise_voxel_grid_sizes vol_mod st of
             Raised e st1 \<Rightarrow> Raises e st1
           | Done st1 \<Rightarrow>
               (case setup_render_feedback_pose args train_dataset of
                  None \<Rightarrow> Raises IndexError st1
                | Some (feedback_pose, real_feedback_image) \<Rightarrow>
                    (case DataLoader_len (length (samples train_dataset))
                            (image_batch_cache_size args) True of
                       None \<Rightarrow> Raises ValueError st1
                     | Some len_train_dl \<Rightarrow>
                         to_call_result vol_mod
                           (chain
                              [main_training_loop args env train_dataset feedback_pose
                                 (dataset_size len_train_dl train_dataset)
                                 stagewise_voxel_grid_sizes vol_mod,
                               save_final_model args]
                              (setup_outputs args real_feedback_image st1)))))"

section \<open>Effects of a call, and ways to look at them\<close>

text \<open>The effects a statement adds to those of the state it starts in.\<close>

definition new_events :: "'t state \<Rightarrow> 't state \<Rightarrow> 't event list" where
  "new_events st st' = drop (length (trace st)) (trace st')"

definition emits_only :: "('t event \<Rightarrow> bool) \<Rightarrow> 't state \<Rightarrow> 't state \<Rightarrow> bool" where
  "emits_only P st st' =
     (take (length (trace st)) (trace st') = trace st \<and> list_all P (new_events st st'))"

text \<open>A view keeps, of every effect, what an observer looks at.\<close>

definition view :: "('e \<Rightarrow> 'a list) \<Rightarrow> 'e list \<Rightarrow> 'a list" where
  "view v es = concat (map v es)"

text \<open>The trigger shared by summaries, feedback and snapshots, when the period is not 0.\<close>

definition periodic :: "'t train_args \<Rightarrow> int \<Rightarrow> int \<Rightarrow> int \<Rightarrow> bool" where
  "periodic args freq stage i =
     (global_step args stage i mod freq = 0 \<or> i = 1 \<or> i = num_iterations_per_stage args)"

text \<open>
  The effects of an iteration that runs to its end, from the losses it computed and the
  learning rate it started with.
\<close>

definition completed_iteration_events ::
  "'t train_args \<Rightarrow> 't \<Rightarrow> int \<Rightarrow> int \<Rightarrow> int \<Rightarrow> 't losses \<Rightarrow> real \<Rightarrow> 't event list" where
  "completed_iteration_events args pose dsize stage i L lr =
     (let g = global_step args stage i in
      [RenderRays False]
      @ (if apply_diffuse_render_regularization args then [RenderRays True] else [])
      @ [OptimizerStep stage i (total_loss L)]
      @ (if periodic args (summary_freq args) stage i
         then [AddScalar ''specular_loss'' (TensorValue (specular_loss_value L)) g]
              @ (case diffuse_loss_value L of
                   None \<Rightarrow> [] | Some v \<Rightarrow> [AddScalar ''diffuse_loss'' (TensorValue v) g])
              @ [AddScalar ''specular_psnr'' (TensorValue (specular_psnr_value L)) g]
              @ (case diffuse_psnr_value L of
                   None \<Rightarrow> [] | Some v \<Rightarrow> [AddScalar ''diffuse_psnr'' (TensorValue v) g])
              @ [AddScalar ''total_loss'' (TensorValue (total_loss L)) g,
                 AddScalar ''num_epochs''
                   (FloatValue (real_of_int (ray_batch_size args * g) / real_of_int dsize)) g,
                 LogInfo (LossInfo stage g i (specular_loss_value L) (specular_psnr_value L)
                   (if apply_diffuse_render_regularization args
                    then (case (diffuse_loss_value L, diffuse_psnr_value L) of
                            (Some dl, Some dp) \<Rightarrow> Some (dl, dp, total_loss L) | _ \<Rightarrow> None)
                    else None))]
         else [])
      @ (if i mod lr_decay_steps_per_stage args = 0
         then [LrSchedulerStep,
               LogInfo (AdjustedLearningRate [lr * lr_decay_gamma_per_stage args])]
         else [])
      @ (if periodic args (feedback_freq args) stage i
         then [RenderedFeedback pose g True] else [])
      @ (if test_dataset args \<noteq> None \<and> \<not> fast_debug_mode args
            \<and> (g mod test_freq args = 0 \<or> i = num_iterations_per_stage args)
         then [TestEvaluation (ray_batch_size args) g] else [])
      @ (if periodic args (save_freq args) stage i
         then [LogInfo (SavingModelSnapshot stage g), TorchSave (snapshot_path args stage g)]
         else []))"

definition downscale_events :: "dims list \<Rightarrow> 't event list" where
  "downscale_events sizes =
     [ScaleVoxelGrid (sizes ! 0) ''trilinear'', RandomInit ''densities'', RandomInit ''features'']"

definition upsample_events :: "'t train_args \<Rightarrow> dims list \<Rightarrow> int \<Rightarrow> 't event list" where
  "upsample_events args sizes stage =
     (if stage \<noteq> num_stages args then [ScaleVoxelGrid (sizes ! nat stage) ''trilinear''] else [])"

text \<open>The iterations a trace went through, as (stage, iteration in the stage).\<close>

fun iteration_of :: "'t event \<Rightarrow> (int \<times> int) list" where
  "iteration_of (OptimizerStep stage i l) = [(stage, i)]"
| "iteration_of _ = []"

text \<open>Every effect that carries a global step carries \<open>g\<close>.\<close>

fun keyed_by :: "'t train_args \<Rightarrow> int \<Rightarrow> int \<Rightarrow> 't event \<Rightarrow> bool" where
  "keyed_by args stage g (AddScalar name v k) = (k = g)"
| "keyed_by args stage g (RenderedFeedback p k d) = (k = g)"
| "keyed_by args stage g (TestEvaluation c k) = (k = g)"
| "keyed_by args stage g (LogInfo (LossInfo s k i a b c)) = (k = g)"
| "keyed_by args stage g (LogInfo (SavingModelSnapshot s k)) = (k = g)"
| "keyed_by args stage g (TorchSave p) = (p = snapshot_path args stage g)"
| "keyed_by args stage g _ = True"

text \<open>No held-out evaluation and no camera-rays visualization.\<close>

fun not_evaluation_nor_camera_rays :: "'t event \<Rightarrow> bool" where
  "not_evaluation_nor_camera_rays (TestEvaluation c g) = False"
| "not_evaluation_nor_camera_rays VisualizeCameraRays = False"
| "not_evaluation_nor_camera_rays _ = True"

text \<open>No diffuse key in tensorboard and no diffuse render pass.\<close>

fun no_diffuse_effect :: "'t event \<Rightarrow> bool" where
  "no_diffuse_effect (AddScalar name v g) =
     (name \<noteq> ''diffuse_loss'' \<and> name \<noteq> ''diffuse_psnr'')"
| "no_diffuse_effect (RenderRays render_diffuse) = (\<not> render_diffuse)"
| "no_diffuse_effect _ = True"

text \<open>The loss the optimizer steps on, and the scalar logged as total loss, are \<open>l\<close>.\<close>

fun total_loss_is :: "'t \<Rightarrow> 't event \<Rightarrow> bool" where
  "total_loss_is l (OptimizerStep stage i optimized) = (optimized = l)"
| "total_loss_is l (AddScalar name v g) = (name \<noteq> ''total_loss'' \<or> v = TensorValue l)"
| "total_loss_is l _ = True"

text \<open>A feedback rendering is of the pose \<open>pose\<close> and asks for the diffuse version too.\<close>

fun feedback_logs_diffuse :: "'t option \<Rightarrow> 't event \<Rightarrow> bool" where
  "feedback_logs_diffuse pose (RenderedFeedback p g log_diffuse_rendered_version) =
     (log_diffuse_rendered_version \<and> pose = Some p)"
| "feedback_logs_diffuse pose _ = True"

text \<open>
  The store after the call holds the objects it held before, but for the field
  \<^verbatim>\<open>thre3d_repr\<close> of the object at \<open>vol_mod\<close>.
\<close>

definition same_model_object :: "addr \<Rightarrow> 't state \<Rightarrow> 't state \<Rightarrow> bool" where
  "same_model_object vol_mod st st' =
     (heap st' = (heap st)(vol_mod := (heap st vol_mod)\<lparr>thre3d_repr := get_repr st' vol_mod\<rparr>))"

text \<open>The grid keeps its class and its resolution.\<close>

definition same_grid_dims :: "addr \<Rightarrow> 't state \<Rightarrow> 't state \<Rightarrow> bool" where
  "same_grid_dims vol_mod st st' =
     (grid_dims (get_repr st' vol_mod) = grid_dims (get_repr st vol_mod)
      \<and> is_VoxelGrid (get_repr st' vol_mod) = is_VoxelGrid (get_repr st vol_mod))"

text \<open>What changes the grid, and the iterations in between.\<close>

datatype grid_mark = Scaled dims string | Randomized string | Iteration int int

fun grid_mark_of :: "'t event \<Rightarrow> grid_mark list" where
  "grid_mark_of (ScaleVoxelGrid sz mode) = [Scaled sz mode]"
| "grid_mark_of (RandomInit tensor_name) = [Randomized tensor_name]"
| "grid_mark_of (OptimizerStep stage i l) = [Iteration stage i]"
| "grid_mark_of _ = []"

text \<open>The files saved, the steps of the loss lines, the steps of the logged total loss.\<close>

fun saved_path :: "'t event \<Rightarrow> path list" where
  "saved_path (TorchSave p) = [p]"
| "saved_path _ = []"

fun loss_line_step :: "'t event \<Rightarrow> int list" where
  "loss_line_step (LogInfo (LossInfo s g i a b c)) = [g]"
| "loss_line_step _ = []"

fun total_loss_scalar_step :: "'t event \<Rightarrow> int list" where
  "total_loss_scalar_step (AddScalar name v g) = (if name = ''total_loss'' then [g] else [])"
| "total_loss_scalar_step _ = []"

text \<open>
  The pixel count in the words of the specification: the number of training images times
  the height times the width of an image.
\<close>

definition spec_dataset_pixel_count :: "'t PosedImagesDataset \<Rightarrow> int" where
  "spec_dataset_pixel_count train_dataset =
     int (length (samples train_dataset)) * intrinsics_height train_dataset
       * intrinsics_width train_dataset"

text \<open>
  What training leaves in the field \<^verbatim>\<open>thre3d_repr\<close> of the model, followed through the
  assignments of the procedure: the representation, with the draw counter and the
  learning rate that the next assignment depends on.
\<close>

record 't grid_state =
  gs_repr :: "'t thre3d_repr_obj"
  gs_rng :: nat
  gs_lr :: real

definition grid_state_of :: "addr \<Rightarrow> 't state \<Rightarrow> 't grid_state" where
  "grid_state_of vol_mod st =
     \<lparr>gs_repr = get_repr st vol_mod, gs_rng = rng st, gs_lr = optimizer_lr st\<rparr>"

text \<open>Lines 128-135: the field is assigned the scaled grid, whose tensors are then redrawn.\<close>

definition downscaled_grid :: "'t collaborators \<Rightarrow> dims list \<Rightarrow> 't grid_state \<Rightarrow> 't grid_state" where
  "downscaled_grid env sizes g =
     (let r1 = scale_voxel_grid_with_required_output_size env (gs_repr g) (sizes ! 0)
                 ''trilinear'';
          r2 = r1\<lparr>densities := random_initializer env (gs_rng g) (densities r1)\<rparr>;
          r3 = r2\<lparr>features := random_initializer env (gs_rng g + 1) (features r2)\<rparr>
      in g\<lparr>gs_repr := r3, gs_rng := gs_rng g + 2\<rparr>)"

text \<open>
  Lines 273-336 and 384-385: one optimizer step on the loss of a fresh batch, then the
  scheduler. A step that raises changes no tensor; a call that returns has none.
\<close>

definition optimized_grid ::
  "'t train_args \<Rightarrow> 't collaborators \<Rightarrow> 't PosedImagesDataset \<Rightarrow> int \<Rightarrow> 't grid_state \<Rightarrow>
     't grid_state" where
  "optimized_grid args env train_dataset stage_iteration g =
     (let batch = sample_random_rays_and_pixels env (gs_rng g) train_dataset
                    (image_batch_cache_size args) (ray_batch_size args);
          L = compute_losses args env (gs_repr g) (fst batch) (snd batch)
      in case optimizer_step env (gs_lr g) (total_loss L) (gs_repr g) of
           None \<Rightarrow> g\<lparr>gs_rng := gs_rng g + 1\<rparr>
         | Some new_values \<Rightarrow>
             g\<lparr>gs_repr := (gs_repr g)\<lparr>densities := fst new_values,
                                       features := snd new_values\<rparr>,
               gs_rng := gs_rng g + 1,
               gs_lr := (if stage_iteration mod lr_decay_steps_per_stage args = 0
                         then gs_lr g * lr_decay_gamma_per_stage args else gs_lr g)\<rparr>)"

text \<open>
  Lines 238-246, 266 and 449-458: the optimizer of the stage, its iterations, and the
  assignment of the grid scaled to the next size when the stage is not the last.
\<close>

definition grid_after_stage ::
  "'t train_args \<Rightarrow> 't collaborators \<Rightarrow> 't PosedImagesDataset \<Rightarrow> dims list \<Rightarrow> int \<Rightarrow>
     't grid_state \<Rightarrow> 't grid_state" where
  "grid_after_stage args env train_dataset sizes stage g =
     (let g1 = fold (optimized_grid args env train_dataset) [1..num_iterations_per_stage args]
                 (g\<lparr>gs_lr := learning_rate args
                              * stagewise_lr_decay_gamma args ^ nat (stage - 1)\<rparr>)
      in if stage \<noteq> num_stages args
         then g1\<lparr>gs_repr := scale_voxel_grid_with_required_output_size env (gs_repr g1)
                              (sizes ! nat stage) ''trilinear''\<rparr>
         else g1)"

definition trained_grid ::
  "'t train_args \<Rightarrow> 't collaborators \<Rightarrow> 't PosedImagesDataset \<Rightarrow> 't grid_state \<Rightarrow> 't grid_state" where
  "trained_grid args env train_dataset g =
     (let sizes = compute_thre3d_grid_sizes env (grid_dims (gs_repr g)) (num_stages args)
                    (scale_factor args)
      in fold (grid_after_stage args env train_dataset sizes) [1..num_stages args]
           (downscaled_grid env sizes g))"

subsection \<open>A small concrete run\<close>

text \<open>
  Tensors are natural numbers. The grid has two trainable tensors, the dataset four
  images of 2 by 2 pixels, loaded two at a time; two stages of two iterations each.
\<close>

definition demo_env :: "nat collaborators" where
  "demo_env = \<lparr>compute_thre3d_grid_sizes = (\<lambda>d n f. [(1, 1, 1), (2, 2, 2)]),
     scale_voxel_grid_with_required_output_size = (\<lambda>r d m. r\<lparr>grid_dims := d\<rparr>),
     random_initializer = (\<lambda>k t. k),
     parameters = (\<lambda>r. PyGenerator [densities r, features r]),
     sample_random_rays_and_pixels = (\<lambda>k ds b n. (k, k)),
     render_rays = (\<lambda>r rays d. rays),
     l1_loss = (\<lambda>a b. a + b), mse_loss = (\<lambda>a b. a * b), mse2psnr = (\<lambda>a. a),
     tensor_add = (\<lambda>a b. a + b),
     optimizer_step = (\<lambda>lr l r. Some (densities r + 1, features r + 1))\<rparr>"

definition demo_dataset :: "nat PosedImagesDataset" where
  "demo_dataset = \<lparr>samples = [(10, 20), (11, 21), (12, 22), (13, 23)],
     cached_data_mode = True, intrinsics_height = 2, intrinsics_width = 2\<rparr>"

definition demo_args :: "nat train_args" where
  "demo_args = \<lparr>output_dir = [''out''], test_dataset = None, image_batch_cache_size = 2,
     ray_batch_size = 4, num_stages = 2, num_iterations_per_stage = 2, scale_factor = 2,
     learning_rate = 1, lr_decay_gamma_per_stage = 1, lr_decay_steps_per_stage = 1000,
     stagewise_lr_decay_gamma = 1, render_feedback_pose = None, save_freq = 1000,
     test_freq = 1000, feedback_freq = 100, summary_freq = 10,
     apply_diffuse_render_regularization = False,
     num_workers = 4, verbose_rendering = True, fast_debug_mode = False\<rparr>"

definition demo_state :: "nat state" where
  "demo_state = \<lparr>heap = (\<lambda>a. \<lparr>thre3d_repr = \<lparr>is_VoxelGrid = True, grid_dims = (2, 2, 2),
        densities = 0, features = 0\<rparr>,
      render_procedure = render_sh_voxel_grid, parallel_rays_chunk_size = 1,
      render_num_samples_per_ray = 1\<rparr>),
     rng = 0, optimizer_lr = 0, trace = []\<rparr>"

text \<open>The same run in fast debug mode, with a test dataset evaluated at every step.\<close>

definition fast_debug_args :: "nat train_args" where
  "fast_debug_args =
     demo_args\<lparr>fast_debug_mode := True, test_dataset := Some demo_dataset, test_freq := 1\<rparr>"

text \<open>
  A grid without trainable tensors: \<^verbatim>\<open>parameters()\<close> is a generator that yields nothing,
  and the gradient step raises.
\<close>

definition untunable_env :: "nat collaborators" where
  "untunable_env =
     demo_env\<lparr>parameters := (\<lambda>r. PyGenerator []), optimizer_step := (\<lambda>lr l r. None)\<rparr>"

text \<open>One stage of five iterations, a snapshot every five steps, a summary at every step.\<close>

definition scenario_a_args :: "nat train_args" where
  "scenario_a_args =
     demo_args\<lparr>num_stages := 1, num_iterations_per_stage := 5, save_freq := 5,
       summary_freq := 1\<rparr>"

section \<open>Sequencing\<close>

lemma and_then_case:
  "and_then x f = (case x of Done s \<Rightarrow> f s | Raised e s \<Rightarrow> Raised e s)"
  by (cases x) simp_all

lemma chain_Cons_Done:
  "chain (f # fs) s = Done s' \<longleftrightarrow> (\<exists>s1. f s = Done s1 \<and> chain fs s1 = Done s')"
  by (cases "f s") simp_all

lemma for_loop_Nil: "for_loop [] body s = Done s"
  by (simp add: for_loop_def)

lemma for_loop_Cons: "for_loop (x # xs) body s = and_then (body x s) (for_loop xs body)"
  by (simp add: for_loop_def)

text \<open>
  A reflexive and transitive relation between the state before and the state reached
  holds of a block when it holds of each of its statements, whether or not the block
  raises.
\<close>

lemma chain_rel:
  assumes refl: "\<And>s. R s s"
    and trans: "\<And>a b c. R a b \<Longrightarrow> R b c \<Longrightarrow> R a c"
    and step: "\<And>f s. f \<in> set fs \<Longrightarrow> R s (state_of (f s))"
  shows "R s (state_of (chain fs s))"
  using step
proof (induction fs arbitrary: s)
  case Nil
  show ?case by (simp add: refl)
next
  case (Cons f fs)
  have first: "R s (state_of (f s))" by (rule Cons.prems) simp
  show ?case
  proof (cases "f s")
    case (Done s1)
    have "R s1 (state_of (chain fs s1))"
      by (rule Cons.IH) (simp add: Cons.prems)
    with first Done show ?thesis by (auto intro: trans)
  next
    case (Raised e s1)
    with first show ?thesis by simp
  qed
qed

lemma for_loop_rel:
  assumes refl: "\<And>s. R s s"
    and trans: "\<And>a b c. R a b \<Longrightarrow> R b c \<Longrightarrow> R a c"
    and step: "\<And>x s. x \<in> set xs \<Longrightarrow> R s (state_of (body x s))"
  shows "R s (state_of (for_loop xs body s))"
  unfolding for_loop_def
  by (rule chain_rel[where R = R, OF refl trans]) (auto simp: step)

text \<open>
  A loop that runs to its end adds, to what an observer has seen, what each of its
  rounds adds, in order.
\<close>

lemma for_loop_Done_view:
  assumes fin: "for_loop xs body s = Done s'"
    and step: "\<And>x s s'. x \<in> set xs \<Longrightarrow> body x s = Done s' \<Longrightarrow> V s' = V s @ X x"
  shows "V s' = V s @ concat (map X xs)"
  using fin step
proof (induction xs arbitrary: s)
  case Nil
  then show ?case by (simp add: for_loop_Nil)
next
  case (Cons x xs)
  from Cons.prems(1) obtain s1 where b: "body x s = Done s1" and r: "for_loop xs body s1 = Done s'"
    by (cases "body x s") (simp_all add: for_loop_Cons)
  have "V s1 = V s @ X x" using b by (intro Cons.prems(2)) simp_all
  moreover have "V s' = V s1 @ concat (map X xs)"
    using r by (rule Cons.IH) (simp add: Cons.prems(2))
  ultimately show ?case by simp
qed

lemma final_state_to_call_result [simp]: "final_state (to_call_result a out) = state_of out"
  by (cases out) (simp_all add: to_call_result_def)

subsection \<open>Relations carried through the procedure\<close>

lemma iteration_rel:
  assumes refl: "\<And>s. R s s"
    and trans: "\<And>a b c. R a b \<Longrightarrow> R b c \<Longrightarrow> R a c"
    and "\<And>s. R s (state_of (optimize args env ds vm stage i s))"
    and "\<And>s0 s. R s (state_of (tensorboard_summaries args dsize
                          (iteration_losses args env ds vm s0) stage i s))"
    and "\<And>s0 s. R s (state_of (console_loss_feedback args
                          (iteration_losses args env ds vm s0) stage i s))"
    and "\<And>s. R s (state_of (step_lr_scheduler args i s))"
    and "\<And>s. R s (state_of (rendered_feedback args pose stage i s))"
    and "\<And>s. R s (state_of (test_metrics args stage i s))"
    and "\<And>s. R s (state_of (save_model args stage i s))"
  shows "R st (state_of (train_iteration args env ds pose dsize vm stage i st))"
  unfolding train_iteration_def Let_def
  by (rule chain_rel[where R = R, OF refl trans]) (auto simp: assms(3-))

lemma stage_rel:
  assumes refl: "\<And>s. R s s"
    and trans: "\<And>a b c. R a b \<Longrightarrow> R b c \<Longrightarrow> R a c"
    and "\<And>s. R s (state_of (begin_stage args env vm stage s))"
    and "\<And>i s. R s (state_of (train_iteration args env ds pose dsize vm stage i s))"
    and "\<And>s. R s (state_of (upsample_after_stage args env sizes vm stage s))"
  shows "R st (state_of (train_stage args env ds pose dsize sizes vm stage st))"
  unfolding train_stage_def
  by (rule chain_rel[where R = R, OF refl trans])
     (auto simp: assms(3,5) intro!: for_loop_rel[where R = R, OF refl trans] assms(4))

lemma train_rel:
  assumes refl: "\<And>s. R s s"
    and trans: "\<And>a b c. R a b \<Longrightarrow> R b c \<Longrightarrow> R a c"
    and "\<And>sizes s. R s (state_of (initial_downscale env sizes vm s))"
    and "\<And>img s. R s (setup_outputs args img s)"
    and "\<And>pose img dsize sizes stage s.
           setup_render_feedback_pose args ds = Some (pose, img) \<Longrightarrow>
           R s (state_of (train_stage args env ds pose dsize sizes vm stage s))"
    and "\<And>s. R s (state_of (save_final_model args s))"
  shows "R st (final_state (train_sh_vox_grid_vol_mod_with_posed_images args env vm ds st))"
proof -
  let ?sizes = "compute_thre3d_grid_sizes env (grid_dims (get_repr st vm)) (num_stages args)
                  (scale_factor args)"
  have down: "R st (state_of (initial_downscale env ?sizes vm st))" by (rule assms(3))
  have rest: "R s1 (state_of (chain [main_training_loop args env ds pose dsize ?sizes vm,
                                      save_final_model args] (setup_outputs args img s1)))"
    if "setup_render_feedback_pose args ds = Some (pose, img)" for s1 pose img dsize
  proof -
    have "R (setup_outputs args img s1)
            (state_of (chain [main_training_loop args env ds pose dsize ?sizes vm,
                              save_final_model args] (setup_outputs args img s1)))"
      by (rule chain_rel[where R = R, OF refl trans])
         (auto simp: main_training_loop_def assms(6)
               intro!: for_loop_rel[where R = R, OF refl trans] assms(5)[OF that])
    with assms(4) show ?thesis by (blast intro: trans)
  qed
  show ?thesis
    unfolding train_sh_vox_grid_vol_mod_with_posed_images_def Let_def
    using down rest
    by (auto simp: refl split: outcome.splits option.splits intro: trans)
qed

subsection \<open>Effects that satisfy a predicate\<close>

lemma emits_onlyI: "trace st' = trace st @ es \<Longrightarrow> list_all P es \<Longrightarrow> emits_only P st st'"
  by (simp add: emits_only_def new_events_def)

lemma emits_onlyD: "emits_only P st st' \<Longrightarrow> \<exists>es. trace st' = trace st @ es \<and> list_all P es"
  unfolding emits_only_def new_events_def
  by (metis append_take_drop_id)

lemma emits_only_refl: "emits_only P st st"
  by (rule emits_onlyI[where es = "[]"]) simp_all

lemma emits_only_trans:
  assumes "emits_only P a b" and "emits_only P b c"
  shows "emits_only P a c"
proof -
  from assms obtain es1 es2 where "trace b = trace a @ es1" "list_all P es1"
    "trace c = trace b @ es2" "list_all P es2"
    by (blast dest: emits_onlyD)
  then show ?thesis by (intro emits_onlyI[where es = "es1 @ es2"]) simp_all
qed

lemma emits_only_new_events: "emits_only P st st' \<Longrightarrow> list_all P (new_events st st')"
  by (simp add: emits_only_def)

lemmas iteration_emits =
  iteration_rel[where R = "emits_only P", OF emits_only_refl emits_only_trans] for P
lemmas stage_emits =
  stage_rel[where R = "emits_only P", OF emits_only_refl emits_only_trans] for P
lemmas train_emits =
  train_rel[where R = "emits_only P", OF emits_only_refl emits_only_trans] for P

lemmas step_defs =
  initial_downscale_def setup_outputs_def begin_stage_def optimize_def
  tensorboard_summaries_def console_loss_feedback_def step_lr_scheduler_def
  rendered_feedback_def test_metrics_def save_model_def upsample_after_stage_def
  save_final_model_def output_setup_effects_def final_model_effects_def

lemmas emits_defs = emits_only_def new_events_def emit_def set_repr_def Let_def

lemma train_extends:
  "\<exists>es. trace (final_state (train_sh_vox_grid_vol_mod_with_posed_images args env vm ds st))
          = trace st @ es"
proof -
  have "emits_only (\<lambda>e. True) st
          (final_state (train_sh_vox_grid_vol_mod_with_posed_images args env vm ds st))"
    by (intro train_emits stage_emits iteration_emits)
       (auto simp: step_defs emits_defs split: option.splits)
  then show ?thesis by (blast dest: emits_onlyD)
qed

subsection \<open>The effects of statements that run to their end\<close>

lemma py_index_Some: "0 \<le> i \<Longrightarrow> py_index xs i = Some x \<Longrightarrow> x = xs ! nat i \<and> nat i < length xs"
  by (auto simp: py_index_def Let_def split: if_splits)

lemma initial_downscale_Done:
  "initial_downscale env sizes vm s = Done s' \<Longrightarrow> trace s' = trace s @ downscale_events sizes"
  by (auto simp: initial_downscale_def downscale_events_def emit_def set_repr_def Let_def
        split: option.splits dest!: py_index_Some[rotated])

lemma setup_outputs_trace:
  "trace (setup_outputs args img s) = trace s @ output_setup_effects args img"
  by (simp add: setup_outputs_def emit_def)

lemma begin_stage_Done:
  assumes "begin_stage args env vm stage s = Done s'"
  shows "trace s' = trace s @
           [AdamCreated (contents (parameters env (get_repr s vm)))
              (learning_rate args * stagewise_lr_decay_gamma args ^ nat (stage - 1)),
            LogInfo (TrainingStage stage (grid_dims (get_repr s vm))),
            LogInfo (CurrentStageLearningRates
              [learning_rate args * stagewise_lr_decay_gamma args ^ nat (stage - 1)])]"
    and "truthy (parameters env (get_repr s vm))"
  using assms
  by (auto simp: begin_stage_def emit_def Let_def get_repr_def split: if_splits)

lemma optimize_Done:
  assumes "optimize args env ds vm stage i st = Done s'"
  shows "trace s' = trace st @
     [RenderRays False]
     @ (if apply_diffuse_render_regularization args then [RenderRays True] else [])
     @ [OptimizerStep stage i (total_loss (iteration_losses args env ds vm st))]"
    and "optimizer_lr s' = optimizer_lr st"
  using assms
  by (auto simp: optimize_def emit_def set_repr_def Let_def split: option.splits)

lemma tensorboard_summaries_Done:
  assumes "tensorboard_summaries args dsize L stage i s = Done s'"
  shows "trace s' = trace s @
     (if periodic args (summary_freq args) stage i
      then [AddScalar ''specular_loss'' (TensorValue (specular_loss_value L)) (global_step args stage i)]
           @ (case diffuse_loss_value L of
                None \<Rightarrow> []
              | Some v \<Rightarrow> [AddScalar ''diffuse_loss'' (TensorValue v) (global_step args stage i)])
           @ [AddScalar ''specular_psnr'' (TensorValue (specular_psnr_value L)) (global_step args stage i)]
           @ (case diffuse_psnr_value L of
                None \<Rightarrow> []
              | Some v \<Rightarrow> [AddScalar ''diffuse_psnr'' (TensorValue v) (global_step args stage i)])
           @ [AddScalar ''total_loss'' (TensorValue (total_loss L)) (global_step args stage i),
              AddScalar ''num_epochs''
                (FloatValue (real_of_int (ray_batch_size args * global_step args stage i)
                             / real_of_int dsize)) (global_step args stage i)]
      else [])"
    and "optimizer_lr s' = optimizer_lr s"
  using assms
  by (auto simp: tensorboard_summaries_def emit_def Let_def py_mod_def periodic_def
        split: option.splits if_splits)

lemma console_loss_feedback_Done:
  assumes "console_loss_feedback args L stage i s = Done s'"
  shows "trace s' = trace s @
     (if periodic args (summary_freq args) stage i
      then [LogInfo (LossInfo stage (global_step args stage i) i
              (specular_loss_value L) (specular_psnr_value L)
              (if apply_diffuse_render_regularization args
               then (case (diffuse_loss_value L, diffuse_psnr_value L) of
                       (Some dl, Some dp) \<Rightarrow> Some (dl, dp, total_loss L) | _ \<Rightarrow> None)
               else None))]
      else [])"
    and "optimizer_lr s' = optimizer_lr s"
  using assms
  by (auto simp: console_loss_feedback_def emit_def Let_def py_mod_def periodic_def
        split: option.splits if_splits)

lemma step_lr_scheduler_Done:
  assumes "step_lr_scheduler args i s = Done s'"
  shows "trace s' = trace s @
     (if i mod lr_decay_steps_per_stage args = 0
      then [LrSchedulerStep,
            LogInfo (AdjustedLearningRate [optimizer_lr s * lr_decay_gamma_per_stage args])]
      else [])"
  using assms
  by (auto simp: step_lr_scheduler_def emit_def Let_def py_mod_def
        split: option.splits if_splits)

lemma rendered_feedback_Done:
  assumes "rendered_feedback args pose stage i s = Done s'"
  shows "trace s' = trace s @
     (if periodic args (feedback_freq args) stage i
      then [RenderedFeedback pose (global_step args stage i) True] else [])"
  using assms
  by (auto simp: rendered_feedback_def emit_def Let_def py_mod_def periodic_def
        split: option.splits if_splits)

lemma test_metrics_Done:
  assumes "test_metrics args stage i s = Done s'"
  shows "trace s' = trace s @
     (if test_dataset args \<noteq> None \<and> \<not> fast_debug_mode args
         \<and> (global_step args stage i mod test_freq args = 0 \<or> i = num_iterations_per_stage args)
      then [TestEvaluation (ray_batch_size args) (global_step args stage i)] else [])"
  using assms
  by (auto simp: test_metrics_def emit_def Let_def py_mod_def
        split: option.splits if_splits)

lemma save_model_Done:
  assumes "save_model args stage i s = Done s'"
  shows "trace s' = trace s @
     (if periodic args (save_freq args) stage i
      then [LogInfo (SavingModelSnapshot stage (global_step args stage i)),
            TorchSave (snapshot_path args stage (global_step args stage i))]
      else [])"
  using assms
  by (auto simp: save_model_def emit_def Let_def py_mod_def periodic_def
        split: option.splits if_splits)

lemma train_iteration_Done:
  assumes "train_iteration args env ds pose dsize vm stage i st = Done st'"
  shows "trace st' = trace st @
           completed_iteration_events args pose dsize stage i
             (iteration_losses args env ds vm st) (optimizer_lr st)"
proof -
  let ?L = "iteration_losses args env ds vm st"
  from assms obtain s0 s1 s2 s3 s4 s5 where
    0: "optimize args env ds vm stage i st = Done s0" and
    1: "tensorboard_summaries args dsize ?L stage i s0 = Done s1" and
    2: "console_loss_feedback args ?L stage i s1 = Done s2" and
    3: "step_lr_scheduler args i s2 = Done s3" and
    4: "rendered_feedback args pose stage i s3 = Done s4" and
    5: "test_metrics args stage i s4 = Done s5" and
    6: "save_model args stage i s5 = Done st'"
    unfolding train_iteration_def Let_def chain_Cons_Done by auto
  have lr: "optimizer_lr s2 = optimizer_lr st"
    using tensorboard_summaries_Done(2)[OF 1] console_loss_feedback_Done(2)[OF 2]
    by (simp add: optimize_Done(2)[OF 0])
  show ?thesis
    unfolding save_model_Done[OF 6] test_metrics_Done[OF 5] rendered_feedback_Done[OF 4]
      step_lr_scheduler_Done[OF 3] console_loss_feedback_Done(1)[OF 2]
      tensorboard_summaries_Done(1)[OF 1] optimize_Done(1)[OF 0] lr
      completed_iteration_events_def Let_def
    by simp
qed

lemma train_iteration_new_events:
  assumes "train_iteration args env ds pose dsize vm stage i st = Done st'"
  shows "new_events st st' =
           completed_iteration_events args pose dsize stage i
             (iteration_losses args env ds vm st) (optimizer_lr st)"
  by (simp add: new_events_def train_iteration_Done[OF assms])

lemma upsample_after_stage_Done:
  "0 \<le> stage \<Longrightarrow> upsample_after_stage args env sizes vm stage s = Done s' \<Longrightarrow>
     trace s' = trace s @ upsample_events args sizes stage"
  by (auto simp: upsample_after_stage_def upsample_events_def emit_def set_repr_def
        split: option.splits if_splits dest!: py_index_Some)

lemma save_final_model_Done:
  "save_final_model args s = Done s' \<Longrightarrow> trace s' = trace s @ final_model_effects args"
  by (auto simp: save_final_model_def emit_def)

lemma train_stage_Done_cases:
  assumes "train_stage args env ds pose dsize sizes vm stage s = Done s'"
  obtains s1 s2 where
    "begin_stage args env vm stage s = Done s1"
    "for_loop [1..num_iterations_per_stage args]
       (train_iteration args env ds pose dsize vm stage) s1 = Done s2"
    "upsample_after_stage args env sizes vm stage s2 = Done s'"
  using assms unfolding train_stage_def chain_Cons_Done py_range_def by auto

lemma train_Returns_cases:
  assumes "train_sh_vox_grid_vol_mod_with_posed_images args env vm ds st = Returns r st'"
  obtains st1 pose img len s2 where
    "is_VoxelGrid (get_repr st vm)"
    "render_procedure (heap st vm) = render_sh_voxel_grid"
    "initial_downscale env
       (compute_thre3d_grid_sizes env (grid_dims (get_repr st vm)) (num_stages args)
          (scale_factor args)) vm st = Done st1"
    "setup_render_feedback_pose args ds = Some (pose, img)"
    "DataLoader_len (length (samples ds)) (image_batch_cache_size args) True = Some len"
    "for_loop [1..num_stages args]
       (train_stage args env ds pose (dataset_size len ds)
          (compute_thre3d_grid_sizes env (grid_dims (get_repr st vm)) (num_stages args)
             (scale_factor args)) vm)
       (setup_outputs args img st1) = Done s2"
    "save_final_model args s2 = Done st'"
    "r = vm"
proof -
  let ?sizes = "compute_thre3d_grid_sizes env (grid_dims (get_repr st vm)) (num_stages args)
                  (scale_factor args)"
  from assms have a: "is_VoxelGrid (get_repr st vm)"
    and b: "render_procedure (heap st vm) = render_sh_voxel_grid"
    by (auto simp: train_sh_vox_grid_vol_mod_with_posed_images_def split: if_splits)
  from assms a b obtain st1 where c: "initial_downscale env ?sizes vm st = Done st1"
    by (cases "initial_downscale env ?sizes vm st")
       (auto simp: train_sh_vox_grid_vol_mod_with_posed_images_def Let_def)
  from assms a b c obtain pose img where d: "setup_render_feedback_pose args ds = Some (pose, img)"
    by (cases "setup_render_feedback_pose args ds")
       (auto simp: train_sh_vox_grid_vol_mod_with_posed_images_def Let_def)
  from assms a b c d obtain len where
    e: "DataLoader_len (length (samples ds)) (image_batch_cache_size args) True = Some len"
    by (cases "DataLoader_len (length (samples ds)) (image_batch_cache_size args) True")
       (auto simp: train_sh_vox_grid_vol_mod_with_posed_images_def Let_def)
  let ?loop = "main_training_loop args env ds pose (dataset_size len ds) ?sizes vm"
  from assms a b c d e have
    f: "to_call_result vm (chain [?loop, save_final_model args] (setup_outputs args img st1))
          = Returns r st'"
    by (simp add: train_sh_vox_grid_vol_mod_with_posed_images_def Let_def)
  then have g: "chain [?loop, save_final_model args] (setup_outputs args img st1) = Done st'"
    and h: "r = vm"
    by (auto simp: to_call_result_def split: outcome.splits)
  from g obtain s2 where "?loop (setup_outputs args img st1) = Done s2"
    "save_final_model args s2 = Done st'"
    unfolding chain_Cons_Done by auto
  with a b c d e h that show thesis
    by (simp add: main_training_loop_def py_range_def)
qed

subsection \<open>What an observer sees of a call that returns\<close>

lemma view_Nil [simp]: "view v [] = []"
  by (simp add: view_def)

lemma view_Cons [simp]: "view v (e # es) = v e @ view v es"
  by (simp add: view_def)

lemma view_append [simp]: "view v (es @ fs) = view v es @ view v fs"
  by (simp add: view_def)

lemma train_stage_Done_view:
  assumes fin: "train_stage args env ds pose dsize sizes vm stage s = Done s'"
    and pos: "0 \<le> stage"
    and iter: "\<And>i L lr.
      view v (completed_iteration_events args pose dsize stage i L lr) = I stage i"
    and quiet: "\<And>ps lr d. v (AdamCreated ps lr) = [] \<and> v (LogInfo (TrainingStage stage d)) = []
      \<and> v (LogInfo (CurrentStageLearningRates [lr])) = []"
  shows "view v (trace s') = view v (trace s)
           @ concat (map (I stage) [1..num_iterations_per_stage args])
           @ view v (upsample_events args sizes stage)"
proof -
  from fin obtain s1 s2 where
    b: "begin_stage args env vm stage s = Done s1" and
    l: "for_loop [1..num_iterations_per_stage args]
          (train_iteration args env ds pose dsize vm stage) s1 = Done s2" and
    u: "upsample_after_stage args env sizes vm stage s2 = Done s'"
    by (rule train_stage_Done_cases)
  have 1: "view v (trace s1) = view v (trace s)"
    by (simp add: begin_stage_Done(1)[OF b] quiet)
  have 2: "view v (trace s2) = view v (trace s1)
             @ concat (map (I stage) [1..num_iterations_per_stage args])"
    using l
    by (rule for_loop_Done_view[where V = "\<lambda>s. view v (trace s)"])
       (simp add: train_iteration_Done iter)
  show ?thesis
    by (simp add: upsample_after_stage_Done[OF pos u] 2 1)
qed

lemma train_Returns_view:
  assumes ret: "train_sh_vox_grid_vol_mod_with_posed_images args env vm ds st = Returns r st'"
    and iter: "\<And>pose dsize stage i L lr.
      view v (completed_iteration_events args pose dsize stage i L lr) = I stage i"
    and quiet: "\<And>ps lr stage d. v (AdamCreated ps lr) = []
      \<and> v (LogInfo (TrainingStage stage d)) = []
      \<and> v (LogInfo (CurrentStageLearningRates [lr])) = []"
  shows "view v (trace st') = view v (trace st)
           @ view v (downscale_events
               (compute_thre3d_grid_sizes env (grid_dims (get_repr st vm)) (num_stages args)
                  (scale_factor args)))
           @ view v (output_setup_effects args
               (snd (the (setup_render_feedback_pose args ds))))
           @ concat (map (\<lambda>stage.
                 concat (map (I stage) [1..num_iterations_per_stage args])
                 @ view v (upsample_events args
                     (compute_thre3d_grid_sizes env (grid_dims (get_repr st vm))
                        (num_stages args) (scale_factor args)) stage))
               [1..num_stages args])
           @ view v (final_model_effects args)"
proof -
  let ?sizes = "compute_thre3d_grid_sizes env (grid_dims (get_repr st vm)) (num_stages args)
                  (scale_factor args)"
  from ret obtain st1 pose img len s2 where
    c: "initial_downscale env ?sizes vm st = Done st1" and
    d: "setup_render_feedback_pose args ds = Some (pose, img)" and
    l: "for_loop [1..num_stages args]
          (train_stage args env ds pose (dataset_size len ds) ?sizes vm)
          (setup_outputs args img st1) = Done s2" and
    f: "save_final_model args s2 = Done st'"
    by (rule train_Returns_cases)
  have 2: "view v (trace s2) = view v (trace (setup_outputs args img st1))
      @ concat (map (\<lambda>stage.
                 concat (map (I stage) [1..num_iterations_per_stage args])
                 @ view v (upsample_events args ?sizes stage))
               [1..num_stages args])"
    using l
    by (rule for_loop_Done_view[where V = "\<lambda>s. view v (trace s)"])
       (rule train_stage_Done_view, assumption, simp, rule iter, rule quiet)
  show ?thesis
    by (simp add: save_final_model_Done[OF f] 2 setup_outputs_trace
          initial_downscale_Done[OF c] d)
qed

lemma train_Returns_new_view:
  assumes ret: "train_sh_vox_grid_vol_mod_with_posed_images args env vm ds st = Returns r st'"
    and eq: "view v (trace st') = view v (trace st) @ X"
  shows "view v (new_events st st') = X"
proof -
  from train_extends[of args env vm ds st] ret obtain es where "trace st' = trace st @ es"
    by auto
  with eq show ?thesis by (simp add: new_events_def)
qed

lemmas effect_list_defs =
  completed_iteration_events_def downscale_events_def output_setup_effects_def
  final_model_effects_def Let_def

lemma completed_run_iterations:
  assumes ret: "train_sh_vox_grid_vol_mod_with_posed_images args env vm ds st = Returns r st'"
  shows "view iteration_of (new_events st st')
           = concat (map (\<lambda>stage. map (Pair stage) [1..num_iterations_per_stage args])
               [1..num_stages args])"
proof -
  have iter: "view iteration_of (completed_iteration_events args pose dsize stage i L lr)
                = [(stage, i)]" for pose dsize stage i L lr
    by (simp add: effect_list_defs split: option.splits)
  have quiet: "iteration_of (AdamCreated ps lr) = []
      \<and> iteration_of (LogInfo (TrainingStage stage d)) = []
      \<and> iteration_of (LogInfo (CurrentStageLearningRates [lr])) = []" for ps lr stage d
    by simp
  have up: "view iteration_of (upsample_events args sizes stage) = []" for sizes stage
    by (simp add: upsample_events_def)
  have "view iteration_of (trace st') = view iteration_of (trace st)
      @ concat (map (\<lambda>stage. map (Pair stage) [1..num_iterations_per_stage args])
               [1..num_stages args])"
    by (simp add: train_Returns_view[OF ret iter quiet] up effect_list_defs split: option.splits)
  with ret show ?thesis by (rule train_Returns_new_view)
qed

subsection \<open>Evaluating the concrete run\<close>

lemmas run_defs =
  train_sh_vox_grid_vol_mod_with_posed_images_def
  get_repr_def set_repr_def emit_def initial_downscale_def py_index_def
  setup_render_feedback_pose_def DataLoader_len_def dataset_size_def setup_outputs_def
  output_setup_effects_def model_dir_def logs_dir_def tensorboard_dir_def render_dir_def
  main_training_loop_def for_loop_def py_range_def train_stage_def begin_stage_def
  train_iteration_def iteration_losses_def compute_losses_def sample_batch_def optimize_def
  global_step_def tensorboard_summaries_def console_loss_feedback_def step_lr_scheduler_def
  rendered_feedback_def test_metrics_def save_model_def snapshot_path_def
  upsample_after_stage_def save_final_model_def final_model_effects_def to_call_result_def
  py_mod_def Let_def str_int_def str_nat.simps digit_char_def

lemmas demo_defs = demo_args_def demo_env_def demo_dataset_def demo_state_def

lemma upto_from_one: "[1..numeral n] = 1 # [2..numeral n]"
  by (subst upto.simps) simp

lemma demo_run_returns:
  "\<exists>st'. train_sh_vox_grid_vol_mod_with_posed_images demo_args demo_env 0 demo_dataset demo_state
          = Returns 0 st'"
  by (simp add: run_defs demo_defs upto_from_one)

section \<open>Fast debug mode\<close>

lemma fast_debug_iteration:
  assumes "fast_debug_mode args"
  shows "emits_only not_evaluation_nor_camera_rays st
           (state_of (train_iteration args env ds pose dsize vm stage i st))"
  using assms
  by (intro iteration_emits)
     (auto simp: step_defs emits_defs split: option.splits)

lemma fast_debug_stage:
  assumes "fast_debug_mode args"
  shows "emits_only not_evaluation_nor_camera_rays st
           (state_of (train_stage args env ds pose dsize sizes vm stage st))"
  using assms
  by (intro stage_emits fast_debug_iteration)
     (auto simp: step_defs emits_defs split: option.splits)

lemma fast_debug_train:
  assumes "fast_debug_mode args"
  shows "emits_only not_evaluation_nor_camera_rays st
           (final_state (train_sh_vox_grid_vol_mod_with_posed_images args env vm ds st))"
  using assms
  by (intro train_emits fast_debug_stage)
     (auto simp: step_defs emits_defs split: option.splits)

text \<open>
  C6. In fast debug mode a call emits no held-out evaluation, whatever \<^verbatim>\<open>test_freq\<close> and
  whether or not a test dataset is given, and no camera-rays visualization; this holds of
  every call, also of one that raises. A call that returns has gone through every
  iteration 1 to \<^verbatim>\<open>num_iterations_per_stage\<close> of every stage 1 to \<^verbatim>\<open>num_stages\<close>, as
  it does outside fast debug mode.
\<close>

theorem C6_fast_debug_mode:
  assumes "fast_debug_mode args"
  shows "list_all not_evaluation_nor_camera_rays
           (new_events st
              (final_state (train_sh_vox_grid_vol_mod_with_posed_images args env vm ds st)))
         \<and> (\<forall>r st'. train_sh_vox_grid_vol_mod_with_posed_images args env vm ds st = Returns r st'
              \<longrightarrow> view iteration_of (new_events st st')
                    = concat (map (\<lambda>stage. map (Pair stage) [1..num_iterations_per_stage args])
                        [1..num_stages args]))"
  using fast_debug_train[OF assms] completed_run_iterations
  by (blast intro: emits_only_new_events)

theorem C6_fast_debug_mode_witness:
  "fast_debug_mode fast_debug_args \<and> test_dataset fast_debug_args \<noteq> None
   \<and> list_all not_evaluation_nor_camera_rays
        (new_events demo_state
           (final_state (train_sh_vox_grid_vol_mod_with_posed_images fast_debug_args demo_env 0
              demo_dataset demo_state)))
   \<and> (\<exists>st'. train_sh_vox_grid_vol_mod_with_posed_images fast_debug_args demo_env 0
              demo_dataset demo_state = Returns 0 st'
          \<and> view iteration_of (new_events demo_state st') = [(1, 1), (1, 2), (2, 1), (2, 2)])"
proof -
  have fd: "fast_debug_mode fast_debug_args" and td: "test_dataset fast_debug_args \<noteq> None"
    by (simp_all add: fast_debug_args_def)
  obtain st' where ret: "train_sh_vox_grid_vol_mod_with_posed_images fast_debug_args demo_env 0
      demo_dataset demo_state = Returns 0 st'"
    by (simp add: run_defs demo_defs fast_debug_args_def upto_from_one)
  note inst = C6_fast_debug_mode[OF fd, of demo_state demo_env 0 demo_dataset]
  from inst ret have "view iteration_of (new_events demo_state st')
      = [(1, 1), (1, 2), (2, 1), (2, 2)]"
    by (simp add: fast_debug_args_def demo_args_def upto_from_one)
  with inst fd td ret show ?thesis by simp
qed

section \<open>Training without the diffuse regularization\<close>

text \<open>
  C5. Without the diffuse regularization a call sends neither \<^verbatim>\<open>diffuse_loss\<close>
  nor \<^verbatim>\<open>diffuse_psnr\<close> to tensorboard and renders no diffuse pass, whether it returns or
  raises; and in every iteration that runs to its end the loss the optimizer steps on,
  and the scalar logged as \<^verbatim>\<open>total_loss\<close>, are the specular loss of that iteration.
\<close>

theorem C5_without_diffuse_regularization:
  assumes "\<not> apply_diffuse_render_regularization args"
  shows "list_all no_diffuse_effect
           (new_events st
              (final_state (train_sh_vox_grid_vol_mod_with_posed_images args env vm ds st)))
         \<and> (\<forall>pose dsize stage i s s'.
               train_iteration args env ds pose dsize vm stage i s = Done s' \<longrightarrow>
               OptimizerStep stage i (specular_loss_value (iteration_losses args env ds vm s))
                 \<in> set (new_events s s')
               \<and> list_all (total_loss_is (specular_loss_value (iteration_losses args env ds vm s)))
                   (new_events s s'))"
proof -
  have "emits_only no_diffuse_effect st
          (final_state (train_sh_vox_grid_vol_mod_with_posed_images args env vm ds st))"
    using assms
    by (intro train_emits stage_emits iteration_emits)
       (auto simp: step_defs emits_defs iteration_losses_def compute_losses_def
          split: option.splits)
  moreover have "OptimizerStep stage i (specular_loss_value (iteration_losses args env ds vm s))
                 \<in> set (new_events s s')
               \<and> list_all (total_loss_is (specular_loss_value (iteration_losses args env ds vm s)))
                   (new_events s s')"
    if "train_iteration args env ds pose dsize vm stage i s = Done s'"
    for pose dsize stage i s s'
    using assms
    by (simp add: train_iteration_new_events[OF that] completed_iteration_events_def Let_def
          iteration_losses_def compute_losses_def)
  ultimately show ?thesis by (blast intro: emits_only_new_events)
qed

theorem C5_without_diffuse_regularization_witness:
  "\<not> apply_diffuse_render_regularization demo_args
   \<and> list_all no_diffuse_effect
       (new_events demo_state
          (final_state (train_sh_vox_grid_vol_mod_with_posed_images demo_args demo_env 0
             demo_dataset demo_state)))"
proof -
  have off: "\<not> apply_diffuse_render_regularization demo_args"
    by (simp add: demo_args_def)
  from C5_without_diffuse_regularization[OF off, of demo_state demo_env 0 demo_dataset] off
  show ?thesis by simp
qed

section \<open>Rendered feedback\<close>

text \<open>
  C8, as the code has it. Every feedback rendering a call asks for is of the one feedback
  pose and is asked with \<^verbatim>\<open>log_diffuse_rendered_version=True\<close>, whether or not the diffuse
  regularization is applied; and an iteration that runs to its end on a step where the
  feedback trigger holds asks for one, keyed by its global step.
\<close>

theorem C8_feedback_always_logs_diffuse_version:
  "list_all (feedback_logs_diffuse (map_option fst (setup_render_feedback_pose args ds)))
     (new_events st
        (final_state (train_sh_vox_grid_vol_mod_with_posed_images args env vm ds st)))
   \<and> (\<forall>pose dsize stage i s s'.
         train_iteration args env ds pose dsize vm stage i s = Done s'
         \<and> periodic args (feedback_freq args) stage i \<longrightarrow>
         RenderedFeedback pose (global_step args stage i) True \<in> set (new_events s s'))"
proof -
  have "emits_only (feedback_logs_diffuse (map_option fst (setup_render_feedback_pose args ds))) st
          (final_state (train_sh_vox_grid_vol_mod_with_posed_images args env vm ds st))"
    by (intro train_emits stage_emits iteration_emits)
       (auto simp: step_defs emits_defs split: option.splits)
  moreover have "RenderedFeedback pose (global_step args stage i) True \<in> set (new_events s s')"
    if "train_iteration args env ds pose dsize vm stage i s = Done s'"
      "periodic args (feedback_freq args) stage i"
    for pose dsize stage i s s'
    using that(2)
    by (simp add: train_iteration_new_events[OF that(1)] completed_iteration_events_def Let_def)
  ultimately show ?thesis by (blast intro: emits_only_new_events)
qed

theorem C8_feedback_always_logs_diffuse_version_witness:
  "list_all (feedback_logs_diffuse (Some 20))
     (new_events demo_state
        (final_state (train_sh_vox_grid_vol_mod_with_posed_images demo_args demo_env 0
           demo_dataset demo_state)))"
  using C8_feedback_always_logs_diffuse_version[of demo_args demo_dataset demo_state demo_env 0]
  by (simp add: setup_render_feedback_pose_def demo_args_def demo_dataset_def)

text \<open>
  The claim as the specification states it fails: the regularization is off in the
  concrete run, and its first step asks for the diffuse version of the feedback.
\<close>

theorem C8_diffuse_feedback_without_regularization:
  "\<not> apply_diffuse_render_regularization demo_args
   \<and> RenderedFeedback 20 1 True
       \<in> set (new_events demo_state
            (final_state (train_sh_vox_grid_vol_mod_with_posed_images demo_args demo_env 0
               demo_dataset demo_state)))"
  by (simp add: run_defs demo_defs upto_from_one new_events_def)

section \<open>The model object\<close>

lemma same_model_object_refl: "same_model_object vm s s"
  by (simp add: same_model_object_def get_repr_def)

lemma same_model_objectI:
  assumes "\<And>a. a \<noteq> vm \<Longrightarrow> heap st' a = heap st a"
    and "heap st' vm = (heap st vm)\<lparr>thre3d_repr := r\<rparr>"
  shows "same_model_object vm st st'"
  using assms by (auto simp: same_model_object_def get_repr_def fun_eq_iff)

lemma same_model_objectD:
  assumes "same_model_object vm st st'"
  shows "a \<noteq> vm \<Longrightarrow> heap st' a = heap st a"
    and "heap st' vm = (heap st vm)\<lparr>thre3d_repr := get_repr st' vm\<rparr>"
  using assms by (auto simp: same_model_object_def fun_eq_iff split: if_splits)

lemma same_model_object_trans:
  assumes ab: "same_model_object vm a b" and bc: "same_model_object vm b c"
  shows "same_model_object vm a c"
proof (rule same_model_objectI)
  fix x assume "x \<noteq> vm"
  then show "heap c x = heap a x"
    using same_model_objectD(1)[OF ab] same_model_objectD(1)[OF bc] by simp
next
  show "heap c vm = (heap a vm)\<lparr>thre3d_repr := get_repr c vm\<rparr>"
    using same_model_objectD(2)[OF ab] same_model_objectD(2)[OF bc] by simp
qed

lemma frame_steps:
  "same_model_object vm s (state_of (initial_downscale env sizes vm s))"
  "same_model_object vm s (setup_outputs args img s)"
  "same_model_object vm s (state_of (begin_stage args env vm stage s))"
  "same_model_object vm s (state_of (optimize args env ds vm stage i s))"
  "same_model_object vm s (state_of (tensorboard_summaries args dsize L stage i s))"
  "same_model_object vm s (state_of (console_loss_feedback args L stage i s))"
  "same_model_object vm s (state_of (step_lr_scheduler args i s))"
  "same_model_object vm s (state_of (rendered_feedback args pose stage i s))"
  "same_model_object vm s (state_of (test_metrics args stage i s))"
  "same_model_object vm s (state_of (save_model args stage i s))"
  "same_model_object vm s (state_of (upsample_after_stage args env sizes vm stage s))"
  "same_model_object vm s (state_of (save_final_model args s))"
  by (simp_all add: step_defs same_model_object_def get_repr_def set_repr_def emit_def Let_def
        split: option.splits prod.splits)

lemmas iteration_frame =
  iteration_rel[where R = "same_model_object vm", OF same_model_object_refl
    same_model_object_trans] for vm
lemmas stage_frame =
  stage_rel[where R = "same_model_object vm", OF same_model_object_refl
    same_model_object_trans] for vm
lemmas train_frame =
  train_rel[where R = "same_model_object vm", OF same_model_object_refl
    same_model_object_trans] for vm

lemma train_same_model_object:
  "same_model_object vm st
     (final_state (train_sh_vox_grid_vol_mod_with_posed_images args env vm ds st))"
  by (intro train_frame stage_frame iteration_frame frame_steps)

subsection \<open>What the field holds after training\<close>

lemma for_loop_Done_fold:
  assumes fin: "for_loop xs body s = Done s'"
    and step: "\<And>x s s'. x \<in> set xs \<Longrightarrow> body x s = Done s' \<Longrightarrow> A s' = f x (A s)"
  shows "A s' = fold f xs (A s)"
  using fin step
proof (induction xs arbitrary: s)
  case Nil
  then show ?case by (simp add: for_loop_Nil)
next
  case (Cons x xs)
  from Cons.prems(1) obtain s1 where b: "body x s = Done s1" and r: "for_loop xs body s1 = Done s'"
    by (cases "body x s") (simp_all add: for_loop_Cons)
  have "A s1 = f x (A s)" using b by (intro Cons.prems(2)) simp_all
  moreover have "A s' = fold f xs (A s1)"
    using r by (rule Cons.IH) (simp add: Cons.prems(2))
  ultimately show ?case by simp
qed

lemma gs_repr_grid_state_of: "gs_repr (grid_state_of vm s) = get_repr s vm"
  by (simp add: grid_state_of_def)

lemma initial_downscale_grid:
  "initial_downscale env sizes vm s = Done s' \<Longrightarrow>
     grid_state_of vm s' = downscaled_grid env sizes (grid_state_of vm s)"
  by (auto simp: initial_downscale_def downscaled_grid_def grid_state_of_def emit_def
        set_repr_def get_repr_def Let_def
        split: option.splits dest!: py_index_Some[rotated])

lemma setup_outputs_grid: "grid_state_of vm (setup_outputs args img s) = grid_state_of vm s"
  by (simp add: setup_outputs_def grid_state_of_def emit_def get_repr_def)

lemma begin_stage_grid:
  "begin_stage args env vm stage s = Done s' \<Longrightarrow>
     grid_state_of vm s'
       = (grid_state_of vm s)\<lparr>gs_lr := learning_rate args
                                       * stagewise_lr_decay_gamma args ^ nat (stage - 1)\<rparr>"
  by (auto simp: begin_stage_def grid_state_of_def emit_def get_repr_def Let_def
        split: if_splits)

lemma optimize_grid:
  "optimize args env ds vm stage i s = Done s' \<Longrightarrow>
     \<exists>new_values.
       optimizer_step env (gs_lr (grid_state_of vm s))
         (total_loss (compute_losses args env (gs_repr (grid_state_of vm s))
            (fst (sample_random_rays_and_pixels env (gs_rng (grid_state_of vm s)) ds
                    (image_batch_cache_size args) (ray_batch_size args)))
            (snd (sample_random_rays_and_pixels env (gs_rng (grid_state_of vm s)) ds
                    (image_batch_cache_size args) (ray_batch_size args)))))
         (gs_repr (grid_state_of vm s)) = Some new_values
       \<and> grid_state_of vm s'
           = (grid_state_of vm s)
               \<lparr>gs_repr := (gs_repr (grid_state_of vm s))\<lparr>densities := fst new_values,
                                                          features := snd new_values\<rparr>,
                 gs_rng := gs_rng (grid_state_of vm s) + 1\<rparr>"
  by (auto simp: optimize_def grid_state_of_def emit_def set_repr_def get_repr_def Let_def
        iteration_losses_def sample_batch_def split: option.splits)

lemma quiet_steps_grid:
  "tensorboard_summaries args dsize L stage i s = Done s' \<Longrightarrow> grid_state_of vm s' = grid_state_of vm s"
  "console_loss_feedback args L stage i s = Done s' \<Longrightarrow> grid_state_of vm s' = grid_state_of vm s"
  "rendered_feedback args pose stage i s = Done s' \<Longrightarrow> grid_state_of vm s' = grid_state_of vm s"
  "test_metrics args stage i s = Done s' \<Longrightarrow> grid_state_of vm s' = grid_state_of vm s"
  "save_model args stage i s = Done s' \<Longrightarrow> grid_state_of vm s' = grid_state_of vm s"
  "save_final_model args s = Done s' \<Longrightarrow> grid_state_of vm s' = grid_state_of vm s"
  by (auto simp: step_defs grid_state_of_def emit_def get_repr_def Let_def
        split: option.splits if_splits prod.splits)

lemma step_lr_scheduler_grid:
  "step_lr_scheduler args i s = Done s' \<Longrightarrow>
     grid_state_of vm s'
       = (grid_state_of vm s)
           \<lparr>gs_lr := (if i mod lr_decay_steps_per_stage args = 0
                      then gs_lr (grid_state_of vm s) * lr_decay_gamma_per_stage args
                      else gs_lr (grid_state_of vm s))\<rparr>"
  by (auto simp: step_lr_scheduler_def grid_state_of_def emit_def get_repr_def Let_def py_mod_def
        split: option.splits if_splits)

lemma train_iteration_grid:
  assumes "train_iteration args env ds pose dsize vm stage i st = Done st'"
  shows "grid_state_of vm st' = optimized_grid args env ds i (grid_state_of vm st)"
proof -
  let ?L = "iteration_losses args env ds vm st"
  from assms obtain s0 s1 s2 s3 s4 s5 where
    0: "optimize args env ds vm stage i st = Done s0" and
    1: "tensorboard_summaries args dsize ?L stage i s0 = Done s1" and
    2: "console_loss_feedback args ?L stage i s1 = Done s2" and
    3: "step_lr_scheduler args i s2 = Done s3" and
    4: "rendered_feedback args pose stage i s3 = Done s4" and
    5: "test_metrics args stage i s4 = Done s5" and
    6: "save_model args stage i s5 = Done st'"
    unfolding train_iteration_def Let_def chain_Cons_Done by auto
  from optimize_grid[OF 0, of ] obtain new_values where
    nv: "optimizer_step env (gs_lr (grid_state_of vm st))
         (total_loss (compute_losses args env (gs_repr (grid_state_of vm st))
            (fst (sample_random_rays_and_pixels env (gs_rng (grid_state_of vm st)) ds
                    (image_batch_cache_size args) (ray_batch_size args)))
            (snd (sample_random_rays_and_pixels env (gs_rng (grid_state_of vm st)) ds
                    (image_batch_cache_size args) (ray_batch_size args)))))
         (gs_repr (grid_state_of vm st)) = Some new_values" and
    g0: "grid_state_of vm s0
           = (grid_state_of vm st)
               \<lparr>gs_repr := (gs_repr (grid_state_of vm st))\<lparr>densities := fst new_values,
                                                          features := snd new_values\<rparr>,
                 gs_rng := gs_rng (grid_state_of vm st) + 1\<rparr>"
    by blast
  have "grid_state_of vm st' = grid_state_of vm s3"
    using quiet_steps_grid(3)[OF 4] quiet_steps_grid(4)[OF 5] quiet_steps_grid(5)[OF 6]
    by simp
  also have "\<dots> = (grid_state_of vm s0)
           \<lparr>gs_lr := (if i mod lr_decay_steps_per_stage args = 0
                      then gs_lr (grid_state_of vm s0) * lr_decay_gamma_per_stage args
                      else gs_lr (grid_state_of vm s0))\<rparr>"
    using step_lr_scheduler_grid[OF 3] quiet_steps_grid(1)[OF 1] quiet_steps_grid(2)[OF 2]
    by simp
  also have "\<dots> = optimized_grid args env ds i (grid_state_of vm st)"
    by (simp add: g0 optimized_grid_def Let_def nv)
  finally show ?thesis .
qed

lemma upsample_after_stage_grid:
  "0 \<le> stage \<Longrightarrow> upsample_after_stage args env sizes vm stage s = Done s' \<Longrightarrow>
     grid_state_of vm s'
       = (if stage \<noteq> num_stages args
          then (grid_state_of vm s)
                 \<lparr>gs_repr := scale_voxel_grid_with_required_output_size env
                               (gs_repr (grid_state_of vm s)) (sizes ! nat stage) ''trilinear''\<rparr>
          else grid_state_of vm s)"
  by (auto simp: upsample_after_stage_def grid_state_of_def emit_def set_repr_def get_repr_def
        split: option.splits if_splits dest!: py_index_Some)

lemma train_stage_grid:
  assumes fin: "train_stage args env ds pose dsize sizes vm stage s = Done s'"
    and pos: "0 \<le> stage"
  shows "grid_state_of vm s' = grid_after_stage args env ds sizes stage (grid_state_of vm s)"
proof -
  from fin obtain s1 s2 where
    b: "begin_stage args env vm stage s = Done s1" and
    l: "for_loop [1..num_iterations_per_stage args]
          (train_iteration args env ds pose dsize vm stage) s1 = Done s2" and
    u: "upsample_after_stage args env sizes vm stage s2 = Done s'"
    by (rule train_stage_Done_cases)
  have 2: "grid_state_of vm s2
      = fold (optimized_grid args env ds) [1..num_iterations_per_stage args] (grid_state_of vm s1)"
    using l
    by (rule for_loop_Done_fold[where A = "grid_state_of vm"]) (rule train_iteration_grid)
  show ?thesis
    by (simp add: upsample_after_stage_grid[OF pos u] 2 begin_stage_grid[OF b]
          grid_after_stage_def Let_def)
qed

lemma train_Returns_grid:
  assumes ret: "train_sh_vox_grid_vol_mod_with_posed_images args env vm ds st = Returns r st'"
  shows "grid_state_of vm st' = trained_grid args env ds (grid_state_of vm st)"
proof -
  let ?sizes = "compute_thre3d_grid_sizes env (grid_dims (get_repr st vm)) (num_stages args)
                  (scale_factor args)"
  from ret obtain st1 pose img len s2 where
    c: "initial_downscale env ?sizes vm st = Done st1" and
    l: "for_loop [1..num_stages args]
          (train_stage args env ds pose (dataset_size len ds) ?sizes vm)
          (setup_outputs args img st1) = Done s2" and
    f: "save_final_model args s2 = Done st'"
    by (rule train_Returns_cases)
  have "grid_state_of vm s2
      = fold (grid_after_stage args env ds ?sizes) [1..num_stages args]
          (grid_state_of vm (setup_outputs args img st1))"
    using l
    by (rule for_loop_Done_fold[where A = "grid_state_of vm"])
       (rule train_stage_grid, assumption, simp)
  then show ?thesis
    by (simp add: quiet_steps_grid(6)[OF f] setup_outputs_grid initial_downscale_grid[OF c]
          trained_grid_def Let_def gs_repr_grid_state_of)
qed

text \<open>
  C10. A call that returns gives back the address it was passed as \<^verbatim>\<open>vol_mod\<close>. The
  object at that address has been changed in place: its field \<^verbatim>\<open>thre3d_repr\<close> now holds
  the grid that the initial downscale and redraw, the optimizer steps and the scalings
  between stages produce from the grid it held before. The store holds no other change:
  the other fields of the object are as they were, and no other model object is made or
  touched.
\<close>

theorem C10_returns_the_model_passed_in:
  assumes "train_sh_vox_grid_vol_mod_with_posed_images args env vm ds st = Returns r st'"
  shows "r = vm \<and> same_model_object vm st st'
       \<and> get_repr st' vm = gs_repr (trained_grid args env ds (grid_state_of vm st))"
proof -
  from assms have "r = vm" by (rule train_Returns_cases)
  moreover have "same_model_object vm st st'"
    using train_same_model_object[of vm st args env ds] assms by simp
  moreover have "get_repr st' vm = gs_repr (trained_grid args env ds (grid_state_of vm st))"
    using train_Returns_grid[OF assms] gs_repr_grid_state_of[of vm st'] by simp
  ultimately show ?thesis by simp
qed

theorem C10_returns_the_model_passed_in_witness:
  "\<exists>st'. train_sh_vox_grid_vol_mod_with_posed_images demo_args demo_env 0 demo_dataset demo_state
          = Returns 0 st'
        \<and> same_model_object 0 demo_state st'
        \<and> get_repr demo_state 0
            = \<lparr>is_VoxelGrid = True, grid_dims = (2, 2, 2), densities = 0, features = 0\<rparr>
        \<and> get_repr st' 0
            = \<lparr>is_VoxelGrid = True, grid_dims = (2, 2, 2), densities = 4, features = 5\<rparr>"
proof -
  from demo_run_returns obtain st' where
    ret: "train_sh_vox_grid_vol_mod_with_posed_images demo_args demo_env 0 demo_dataset
            demo_state = Returns 0 st'" ..
  have "gs_repr (trained_grid demo_args demo_env demo_dataset (grid_state_of 0 demo_state))
      = \<lparr>is_VoxelGrid = True, grid_dims = (2, 2, 2), densities = 4, features = 5\<rparr>"
    by (simp add: trained_grid_def grid_after_stage_def optimized_grid_def downscaled_grid_def
          compute_losses_def grid_state_of_def get_repr_def demo_defs Let_def upto_from_one)
  with C10_returns_the_model_passed_in[OF ret] ret show ?thesis
    by (simp add: get_repr_def demo_state_def)
qed

section \<open>The global step\<close>

lemma map_shift_upto: "map (\<lambda>i. k + i) [a..b] = [k + a..k + b]"
  by (rule nth_equalityI) simp_all

lemma upto_append_next: "0 \<le> k \<Longrightarrow> 0 \<le> n \<Longrightarrow> [1..k] @ [k + 1..k + n] = [1..k + (n::int)]"
proof (cases "n = 0")
  case True
  then show ?thesis by simp
next
  case False
  assume "0 \<le> k" "0 \<le> n"
  with False show ?thesis
    using upto_split1[of 1 "k + 1" "k + n"] by simp
qed

lemma global_steps_enumerate_nonneg:
  assumes "0 \<le> S" and "0 \<le> N"
  shows "concat (map (\<lambda>s. map (\<lambda>i. (s - 1) * N + i) [1..N]) [1..S]) = [1..S * (N::int)]"
  using assms(1)
proof (induction S rule: int_ge_induct)
  case base
  show ?case by simp
next
  case (step S)
  have "0 \<le> S * N" using step.hyps assms(2) by simp
  then have app: "[1..S * N] @ [S * N + 1..S * N + N] = [1..S * N + N]"
    using assms(2) by (rule upto_append_next)
  have last: "map (\<lambda>i. (S + 1 - 1) * N + i) [1..N] = [S * N + 1..S * N + N]"
    using map_shift_upto[of "S * N" 1 N] by simp
  have split: "[1..S + 1] = [1..S] @ [S + 1]"
    using step.hyps by (simp add: upto_rec2)
  have "concat (map (\<lambda>s. map (\<lambda>i. (s - 1) * N + i) [1..N]) [1..S + 1])
          = [1..S * N] @ [S * N + 1..S * N + N]"
    unfolding split by (simp only: map_append concat_append step.IH last list.map concat.simps
        append_Nil2)
  also have "\<dots> = [1..(S + 1) * N]"
    by (simp only: app) (simp add: algebra_simps)
  finally show ?case .
qed

lemma global_steps_enumerate:
  "concat (map (\<lambda>s. map (\<lambda>i. (s - 1) * N + i) [1..N]) [1..S]) = [1..max 0 S * max 0 (N::int)]"
proof (cases "0 \<le> S \<and> 0 \<le> N")
  case True
  then show ?thesis by (simp add: global_steps_enumerate_nonneg max_def)
next
  case False
  then have "S < 0 \<or> N < 0" by auto
  then show ?thesis
  proof
    assume "S < 0"
    then show ?thesis by (simp add: max_def)
  next
    assume "N < 0"
    then show ?thesis by (simp add: max_def)
  qed
qed

lemma keyed_iteration:
  "emits_only (keyed_by args stage (global_step args stage i)) st
     (state_of (train_iteration args env ds pose dsize vm stage i st))"
  by (intro iteration_emits)
     (auto simp: step_defs emits_defs split: option.splits)

text \<open>
  C2. In iteration \<open>i\<close> of stage \<open>stage\<close>, whatever the state it starts in and whether or
  not it raises, every effect that carries a global step (the scalars, the loss line, the
  feedback rendering, the evaluation, the snapshot and its file name) carries
  \<open>(stage - 1) * num_iterations_per_stage + i\<close>. Taken over the iterations of a call that
  returns, in the order they ran, the global steps are 1, 2, ... up to
  \<open>num_stages * num_iterations_per_stage\<close>: each is the one before plus 1, across stages
  too.
\<close>

theorem C2_global_step:
  "(\<forall>stage i s.
      list_all (keyed_by args stage ((stage - 1) * num_iterations_per_stage args + i))
        (new_events s (state_of (train_iteration args env ds pose dsize vm stage i s))))
   \<and> (\<forall>r st'. train_sh_vox_grid_vol_mod_with_posed_images args env vm ds st = Returns r st' \<longrightarrow>
         map (\<lambda>(stage, i). global_step args stage i) (view iteration_of (new_events st st'))
           = [1..max 0 (num_stages args) * max 0 (num_iterations_per_stage args)])
   \<and> (\<forall>stage i. global_step args stage i = (stage - 1) * num_iterations_per_stage args + i)"
proof -
  have "list_all (keyed_by args stage ((stage - 1) * num_iterations_per_stage args + i))
          (new_events s (state_of (train_iteration args env ds pose dsize vm stage i s)))"
    for stage i s
    using keyed_iteration[of args stage i s env ds pose dsize vm]
    by (simp add: global_step_def emits_only_new_events)
  moreover have "map (\<lambda>(stage, i). global_step args stage i) (view iteration_of (new_events st st'))
           = [1..max 0 (num_stages args) * max 0 (num_iterations_per_stage args)]"
    if ret: "train_sh_vox_grid_vol_mod_with_posed_images args env vm ds st = Returns r st'"
    for r st'
    unfolding completed_run_iterations[OF ret]
    by (simp add: map_concat comp_def global_step_def global_steps_enumerate)
  ultimately show ?thesis by (simp add: global_step_def)
qed

theorem C2_global_step_witness:
  "list_all (keyed_by demo_args 2 3)
     (new_events demo_state
        (state_of (train_iteration demo_args demo_env demo_dataset 20 8 0 2 1 demo_state)))
   \<and> (\<exists>st'. train_sh_vox_grid_vol_mod_with_posed_images demo_args demo_env 0 demo_dataset
              demo_state = Returns 0 st'
         \<and> map (\<lambda>(stage, i). global_step demo_args stage i)
             (view iteration_of (new_events demo_state st')) = [1, 2, 3, 4])"
proof -
  from demo_run_returns obtain st' where
    ret: "train_sh_vox_grid_vol_mod_with_posed_images demo_args demo_env 0 demo_dataset
            demo_state = Returns 0 st'" ..
  note inst = C2_global_step[of demo_args demo_env demo_dataset 20 8 0 demo_state]
  from inst have "list_all (keyed_by demo_args 2 ((2 - 1) * num_iterations_per_stage demo_args + 1))
     (new_events demo_state
        (state_of (train_iteration demo_args demo_env demo_dataset 20 8 0 2 1 demo_state)))"
    by blast
  moreover from inst ret have "map (\<lambda>(stage, i). global_step demo_args stage i)
             (view iteration_of (new_events demo_state st'))
      = [1..max 0 (num_stages demo_args) * max 0 (num_iterations_per_stage demo_args)]"
    by blast
  ultimately show ?thesis using ret
    by (simp add: demo_args_def upto_from_one)
qed

section \<open>Resolution changes\<close>

lemma iteration_same_grid_dims:
  "same_grid_dims vm st (state_of (train_iteration args env ds pose dsize vm stage i st))"
  by (rule iteration_rel[where R = "same_grid_dims vm"])
     (auto simp: step_defs same_grid_dims_def get_repr_def set_repr_def emit_def Let_def
        split: option.splits prod.splits)

lemma completed_run_grid_marks:
  assumes ret: "train_sh_vox_grid_vol_mod_with_posed_images args env vm ds st = Returns r st'"
  shows "view grid_mark_of (new_events st st')
           = [Scaled (compute_thre3d_grid_sizes env (grid_dims (get_repr st vm)) (num_stages args)
                        (scale_factor args) ! 0) ''trilinear'',
              Randomized ''densities'', Randomized ''features'']
             @ concat (map (\<lambda>stage.
                   map (Iteration stage) [1..num_iterations_per_stage args]
                   @ (if stage \<noteq> num_stages args
                      then [Scaled (compute_thre3d_grid_sizes env (grid_dims (get_repr st vm))
                                      (num_stages args) (scale_factor args) ! nat stage)
                              ''trilinear'']
                      else []))
                 [1..num_stages args])"
proof -
  have iter: "view grid_mark_of (completed_iteration_events args pose dsize stage i L lr)
                = [Iteration stage i]" for pose dsize stage i L lr
    by (simp add: effect_list_defs split: option.splits)
  have quiet: "grid_mark_of (AdamCreated ps lr) = []
      \<and> grid_mark_of (LogInfo (TrainingStage stage d)) = []
      \<and> grid_mark_of (LogInfo (CurrentStageLearningRates [lr])) = []" for ps lr stage d
    by simp
  have up: "view grid_mark_of (upsample_events args sizes stage)
      = (if stage \<noteq> num_stages args then [Scaled (sizes ! nat stage) ''trilinear''] else [])"
    for sizes stage
    by (simp add: upsample_events_def)
  show ?thesis
    by (rule train_Returns_new_view[OF ret])
       (simp add: train_Returns_view[OF ret iter quiet] up effect_list_defs split: option.splits)
qed

text \<open>
  C9. Of a call that returns, the statements that change the grid, among the iterations,
  are these and no others, in this order: the downscale to the first size followed by
  the two random initializations; then, after the last iteration of every stage but the
  last, one trilinear scaling to the size listed for the next stage
  (\<^verbatim>\<open>stagewise_voxel_grid_sizes[stage]\<close>), with no random initialization after it. That
  scaling is applied to the representation as the stage left it and draws nothing; after
  the last stage nothing is done; an iteration, and the start of a stage, leave the class
  and the resolution of the grid as they are.
\<close>

theorem C9_grid_resized_between_stages:
  "(\<forall>r st'. train_sh_vox_grid_vol_mod_with_posed_images args env vm ds st = Returns r st' \<longrightarrow>
      view grid_mark_of (new_events st st')
        = [Scaled (compute_thre3d_grid_sizes env (grid_dims (get_repr st vm)) (num_stages args)
                     (scale_factor args) ! 0) ''trilinear'',
           Randomized ''densities'', Randomized ''features'']
          @ concat (map (\<lambda>stage.
                map (Iteration stage) [1..num_iterations_per_stage args]
                @ (if stage \<noteq> num_stages args
                   then [Scaled (compute_thre3d_grid_sizes env (grid_dims (get_repr st vm))
                                   (num_stages args) (scale_factor args) ! nat stage)
                           ''trilinear'']
                   else []))
              [1..num_stages args]))
   \<and> (\<forall>sizes stage s s'.
         0 \<le> stage \<and> stage \<noteq> num_stages args
         \<and> upsample_after_stage args env sizes vm stage s = Done s' \<longrightarrow>
         get_repr s' vm
           = scale_voxel_grid_with_required_output_size env (get_repr s vm) (sizes ! nat stage)
               ''trilinear''
         \<and> rng s' = rng s)
   \<and> (\<forall>sizes s. upsample_after_stage args env sizes vm (num_stages args) s = Done s)
   \<and> (\<forall>pose dsize stage i s.
         same_grid_dims vm s (state_of (train_iteration args env ds pose dsize vm stage i s)))
   \<and> (\<forall>stage s. get_repr (state_of (begin_stage args env vm stage s)) vm = get_repr s vm)"
proof (intro conjI allI impI)
  fix r st'
  assume "train_sh_vox_grid_vol_mod_with_posed_images args env vm ds st = Returns r st'"
  then show "view grid_mark_of (new_events st st')
        = [Scaled (compute_thre3d_grid_sizes env (grid_dims (get_repr st vm)) (num_stages args)
                     (scale_factor args) ! 0) ''trilinear'',
           Randomized ''densities'', Randomized ''features'']
          @ concat (map (\<lambda>stage.
                map (Iteration stage) [1..num_iterations_per_stage args]
                @ (if stage \<noteq> num_stages args
                   then [Scaled (compute_thre3d_grid_sizes env (grid_dims (get_repr st vm))
                                   (num_stages args) (scale_factor args) ! nat stage)
                           ''trilinear'']
                   else []))
              [1..num_stages args])"
    by (rule completed_run_grid_marks)
next
  fix sizes stage s s'
  assume a: "0 \<le> stage \<and> stage \<noteq> num_stages args
         \<and> upsample_after_stage args env sizes vm stage s = Done s'"
  then show "get_repr s' vm
           = scale_voxel_grid_with_required_output_size env (get_repr s vm) (sizes ! nat stage)
               ''trilinear''"
    by (auto simp: upsample_after_stage_def emit_def set_repr_def get_repr_def
          split: option.splits dest!: py_index_Some)
  from a show "rng s' = rng s"
    by (auto simp: upsample_after_stage_def emit_def set_repr_def
          split: option.splits)
next
  fix sizes s
  show "upsample_after_stage args env sizes vm (num_stages args) s = Done s"
    by (simp add: upsample_after_stage_def)
next
  fix pose dsize stage i s
  show "same_grid_dims vm s (state_of (train_iteration args env ds pose dsize vm stage i s))"
    by (rule iteration_same_grid_dims)
next
  fix stage s
  show "get_repr (state_of (begin_stage args env vm stage s)) vm = get_repr s vm"
    by (simp add: begin_stage_def emit_def get_repr_def Let_def)
qed

theorem C9_grid_resized_between_stages_witness:
  "\<exists>st'. train_sh_vox_grid_vol_mod_with_posed_images demo_args demo_env 0 demo_dataset demo_state
          = Returns 0 st'
     \<and> view grid_mark_of (new_events demo_state st')
         = [Scaled (1, 1, 1) ''trilinear'', Randomized ''densities'', Randomized ''features'',
            Iteration 1 1, Iteration 1 2, Scaled (2, 2, 2) ''trilinear'',
            Iteration 2 1, Iteration 2 2]"
proof -
  from demo_run_returns obtain st' where
    ret: "train_sh_vox_grid_vol_mod_with_posed_images demo_args demo_env 0 demo_dataset
            demo_state = Returns 0 st'" ..
  from C9_grid_resized_between_stages[of demo_args demo_env 0 demo_dataset demo_state] ret
  have "view grid_mark_of (new_events demo_state st')
        = [Scaled (compute_thre3d_grid_sizes demo_env (grid_dims (get_repr demo_state 0))
                     (num_stages demo_args) (scale_factor demo_args) ! 0) ''trilinear'',
           Randomized ''densities'', Randomized ''features'']
          @ concat (map (\<lambda>stage.
                map (Iteration stage) [1..num_iterations_per_stage demo_args]
                @ (if stage \<noteq> num_stages demo_args
                   then [Scaled (compute_thre3d_grid_sizes demo_env
                                   (grid_dims (get_repr demo_state 0))
                                   (num_stages demo_args) (scale_factor demo_args) ! nat stage)
                           ''trilinear'']
                   else []))
              [1..num_stages demo_args])"
    by blast
  with ret show ?thesis
    by (simp add: demo_defs upto_from_one)
qed

section \<open>Scenario A\<close>

lemma completed_run_view_periodic:
  assumes ret: "train_sh_vox_grid_vol_mod_with_posed_images args env vm ds st = Returns r st'"
    and iter: "\<And>pose dsize stage i L lr.
      view v (completed_iteration_events args pose dsize stage i L lr) = I stage i"
    and quiet: "\<And>e. (\<forall>p. e \<noteq> TorchSave p) \<Longrightarrow> (\<forall>s g i a b c. e \<noteq> LogInfo (LossInfo s g i a b c))
      \<Longrightarrow> (\<forall>n x g. e \<noteq> AddScalar n x g) \<Longrightarrow> v e = []"
  shows "view v (new_events st st')
           = concat (map (\<lambda>stage. concat (map (I stage) [1..num_iterations_per_stage args]))
               [1..num_stages args])
             @ view v (final_model_effects args)"
proof -
  have q: "v (AdamCreated ps lr) = [] \<and> v (LogInfo (TrainingStage stage d)) = []
      \<and> v (LogInfo (CurrentStageLearningRates [lr])) = []" for ps lr stage d
    by (simp add: quiet)
  have up: "view v (upsample_events args sizes stage) = []" for sizes stage
    by (simp add: upsample_events_def quiet)
  show ?thesis
    by (rule train_Returns_new_view[OF ret])
       (simp add: train_Returns_view[OF ret iter q] up quiet downscale_events_def
          output_setup_effects_def split: option.splits)
qed

text \<open>
  C4. With one stage of five iterations, \<^verbatim>\<open>save_freq=5\<close> and \<^verbatim>\<open>summary_freq=1\<close>, a call
  that returns has written five loss lines and five \<^verbatim>\<open>total_loss\<close> scalars, one for each
  of the steps 1 to 5, and has saved three files with three different names: the snapshot
  of step 1, the snapshot of step 5 (saved once) and the final model.
\<close>

theorem C4_scenario_a:
  assumes "num_stages args = 1" and "num_iterations_per_stage args = 5"
    and "save_freq args = 5" and "summary_freq args = 1"
    and ret: "train_sh_vox_grid_vol_mod_with_posed_images args env vm ds st = Returns r st'"
  shows "view loss_line_step (new_events st st') = [1, 2, 3, 4, 5]
       \<and> view total_loss_scalar_step (new_events st st') = [1, 2, 3, 4, 5]
       \<and> view saved_path (new_events st st')
           = [model_dir args @ [''model_stage_1_iter_1.pth''],
              model_dir args @ [''model_stage_1_iter_5.pth''],
              model_dir args @ [''model_final.pth'']]
       \<and> distinct (view saved_path (new_events st st'))"
proof -
  have lines: "view loss_line_step (completed_iteration_events args pose dsize stage i L lr)
      = (if periodic args (summary_freq args) stage i then [global_step args stage i] else [])"
    for pose dsize stage i L lr
    by (simp add: effect_list_defs split: option.splits)
  have totals: "view total_loss_scalar_step (completed_iteration_events args pose dsize stage i L lr)
      = (if periodic args (summary_freq args) stage i then [global_step args stage i] else [])"
    for pose dsize stage i L lr
    by (simp add: effect_list_defs split: option.splits)
  have saves: "view saved_path (completed_iteration_events args pose dsize stage i L lr)
      = (if periodic args (save_freq args) stage i
         then [snapshot_path args stage (global_step args stage i)] else [])"
    for pose dsize stage i L lr
    by (simp add: effect_list_defs split: option.splits)
  have quiet1: "loss_line_step e = []"
    if "\<forall>p. e \<noteq> TorchSave p" "\<forall>s g i a b c. e \<noteq> LogInfo (LossInfo s g i a b c)"
      "\<forall>n x g. e \<noteq> AddScalar n x g" for e :: "'a event"
    using that(2) by (cases e rule: loss_line_step.cases) simp_all
  have quiet2: "total_loss_scalar_step e = []"
    if "\<forall>p. e \<noteq> TorchSave p" "\<forall>s g i a b c. e \<noteq> LogInfo (LossInfo s g i a b c)"
      "\<forall>n x g. e \<noteq> AddScalar n x g" for e :: "'a event"
    using that(3) by (cases e) simp_all
  have quiet3: "saved_path e = []"
    if "\<forall>p. e \<noteq> TorchSave p" "\<forall>s g i a b c. e \<noteq> LogInfo (LossInfo s g i a b c)"
      "\<forall>n x g. e \<noteq> AddScalar n x g" for e :: "'a event"
    using that(1) by (cases e) simp_all
  have 1: "view loss_line_step (new_events st st') = [1, 2, 3, 4, 5]"
    using assms(1-4)
    by (simp add: completed_run_view_periodic[OF ret lines quiet1]
          upto_from_one periodic_def global_step_def final_model_effects_def)
  have 2: "view total_loss_scalar_step (new_events st st') = [1, 2, 3, 4, 5]"
    using assms(1-4)
    by (simp add: completed_run_view_periodic[OF ret totals quiet2]
          upto_from_one periodic_def global_step_def final_model_effects_def)
  have 3: "view saved_path (new_events st st')
           = [model_dir args @ [''model_stage_1_iter_1.pth''],
              model_dir args @ [''model_stage_1_iter_5.pth''],
              model_dir args @ [''model_final.pth'']]"
    using assms(1-4)
    by (simp add: completed_run_view_periodic[OF ret saves quiet3]
          upto_from_one periodic_def global_step_def final_model_effects_def
          snapshot_path_def str_int_def str_nat.simps digit_char_def)
  from 1 2 3 show ?thesis by simp
qed

theorem C4_scenario_a_witness:
  "num_stages scenario_a_args = 1 \<and> num_iterations_per_stage scenario_a_args = 5
   \<and> save_freq scenario_a_args = 5 \<and> summary_freq scenario_a_args = 1
   \<and> (\<exists>st'. train_sh_vox_grid_vol_mod_with_posed_images scenario_a_args demo_env 0 demo_dataset
               demo_state = Returns 0 st'
         \<and> view loss_line_step (new_events demo_state st') = [1, 2, 3, 4, 5]
         \<and> view total_loss_scalar_step (new_events demo_state st') = [1, 2, 3, 4, 5]
         \<and> view saved_path (new_events demo_state st')
             = [[''out'', ''saved_models'', ''model_stage_1_iter_1.pth''],
                [''out'', ''saved_models'', ''model_stage_1_iter_5.pth''],
                [''out'', ''saved_models'', ''model_final.pth'']])"
proof -
  have a: "num_stages scenario_a_args = 1" "num_iterations_per_stage scenario_a_args = 5"
    "save_freq scenario_a_args = 5" "summary_freq scenario_a_args = 1"
    by (simp_all add: scenario_a_args_def)
  obtain st' where ret: "train_sh_vox_grid_vol_mod_with_posed_images scenario_a_args demo_env 0
      demo_dataset demo_state = Returns 0 st'"
    by (simp add: run_defs demo_defs scenario_a_args_def upto_from_one)
  from C4_scenario_a[OF a ret] a ret show ?thesis
    by (simp add: model_dir_def scenario_a_args_def demo_args_def)
qed

section \<open>The assertion on the optimizeable parameters\<close>

text \<open>
  C1, at a grid without trainable tensors. \<^verbatim>\<open>parameters()\<close> gives a generator that
  yields nothing; the generator object is true, so the assertion at the start of the stage
  passes and Adam is created over the empty list. Had the parameters been the empty list
  itself, the same statement would have raised. The call goes on to render a batch, and
  stops in \<^verbatim>\<open>backward\<close>, on a loss that depends on no parameter.
\<close>

theorem C1_empty_generator_passes_the_assertion:
  "(\<forall>r. contents (parameters untunable_env r) = [])
   \<and> (\<exists>s'. begin_stage demo_args untunable_env 0 1 demo_state = Done s'
         \<and> AdamCreated [] 1 \<in> set (trace s'))
   \<and> AdamCreated [] 1
       \<in> set (trace (final_state (train_sh_vox_grid_vol_mod_with_posed_images demo_args
                  untunable_env 0 demo_dataset demo_state)))
   \<and> begin_stage demo_args (demo_env\<lparr>parameters := (\<lambda>r. PyList [])\<rparr>) 0 1 demo_state
       = Raised (AssertionError ''No optimizeable parameters :(. Nothing will happen'') demo_state"
  by (simp add: run_defs demo_defs untunable_env_def upto_from_one)

section \<open>The epoch fraction\<close>

text \<open>
  C3, at the concrete run: four images of 2 by 2 pixels, loaded two at a time, and four
  rays per iteration. The loader has two batches, so \<^verbatim>\<open>dataset_size\<close> is 8 and the value
  logged at step 1 is 4 / 8; by the pixel count of the dataset, 16, it would be 4 / 16.
\<close>

theorem C3_num_epochs_divides_by_batches:
  "AddScalar ''num_epochs'' (FloatValue (1 / 2)) 1
     \<in> set (trace (final_state (train_sh_vox_grid_vol_mod_with_posed_images demo_args demo_env 0
                demo_dataset demo_state)))
   \<and> real_of_int (ray_batch_size demo_args * 1)
       / real_of_int (spec_dataset_pixel_count demo_dataset) = 1 / 4
   \<and> DataLoader_len (length (samples demo_dataset)) (image_batch_cache_size demo_args) True
       = Some 2
   \<and> dataset_size 2 demo_dataset = 8
   \<and> spec_dataset_pixel_count demo_dataset = 16"
  by (simp add: run_defs demo_defs spec_dataset_pixel_count_def upto_from_one)

end
